theory Spec2Isabelle
  imports Complex_Main "HOL-Library.Word"
begin

section \<open>The abalone age predictor: \<open>model_fn\<close> of \<open>abalone.py\<close>\<close>

text \<open>
  The notebook prints the training script \<open>abalone.py\<close>; its only function with
  branching is \<open>model_fn(features, labels, mode, params)\<close>. The script builds three
  \<open>tf.keras.layers.Dense\<close> layers, flattens the output, and returns an
  \<open>EstimatorSpec\<close>: for \<open>ModeKeys.PREDICT\<close> at once, otherwise after building the
  mean squared error loss, the SGD training operation and the \<open>rmse\<close> metric.

  Conventions of the embedding.
  \<^item> 32-bit floating point numbers are embedded in the reals: rounding, overflow, NaN
    and infinities are not modelled. Labels are Python integers (\<open>int\<close>).
  \<^item> A rank-2 tensor is a list of rows, a rank-1 tensor a list; a rank-1 tensor that
    takes part in a type-checked operation carries its element type (\<open>tensor\<close>).
  \<^item> The variables that the layers and the optimizer own (kernels, biases, the stored
    learning rate) and the global step live in the framework's session and checkpoints;
    here they are an explicit record \<open>variables\<close> handed to \<open>model_fn\<close>. The global
    step is a 64-bit integer, and adding to it wraps around.
  \<^item> A hyperparameter is a Python value (\<open>pyvalue\<close>): the optimizer accepts a Python
    float as learning rate and nothing else.
  \<^item> Every exception the script can raise is a value \<open>Inl e\<close> of \<open>error + 'a\<close>.
  \<^item> An operation of the graph (\<open>train_op\<close>) is modelled by the variables that
    running it once would leave behind.
\<close>

subsection \<open>Data\<close>

type_synonym vec = "real list"
type_synonym matrix = "real list list"

datatype dtype = DT_FLOAT | DT_DOUBLE | DT_INT64

record tensor =
  dtype :: dtype
  elems :: vec

datatype error =
    KeyError string
  | ShapeError
  | NoneValue
  | DTypeMismatch
  | InvalidLearningRate
  | LearningRateType

datatype pyvalue = PyFloat real | PyInt int | PyStr string

datatype activation = Relu | Linear

text \<open>
  The six trainable variables of the three layers, the global step (\<open>int64\<close>), and the
  variable \<open>OptimizeLoss/learning_rate\<close> in which the optimizer keeps its learning rate:
  \<open>None\<close> as long as no training step has created it, afterwards the stored rate, which
  a checkpoint carries to the next run.
\<close>

record variables =
  kernel1 :: matrix
  bias1 :: vec
  kernel2 :: matrix
  bias2 :: vec
  kernel3 :: matrix
  bias3 :: vec
  global_step :: "64 word"
  optimizer_learning_rate :: "real option"

datatype export_output = PredictOutput "string \<rightharpoonup> tensor"

text \<open>
  \<open>tf.estimator.EstimatorSpec\<close>: every argument but \<open>mode\<close> defaults to \<open>None\<close>.
\<close>

record EstimatorSpec =
  spec_mode :: string
  spec_predictions :: "(string \<rightharpoonup> tensor) option"
  spec_loss :: "real option"
  spec_train_op :: "variables option"
  spec_eval_metric_ops :: "(string \<rightharpoonup> real) option"
  spec_export_outputs :: "(string \<rightharpoonup> export_output) option"

subsection \<open>Constants of the script\<close>

definition INPUT_TENSOR_NAME :: string where
  "INPUT_TENSOR_NAME = ''inputs''"

definition SIGNATURE_NAME :: string where
  "SIGNATURE_NAME = ''serving_default''"

definition LEARNING_RATE :: real where
  "LEARNING_RATE = 1 / 1000"

text \<open>The string values of \<open>tf.estimator.ModeKeys\<close>.\<close>

definition TRAIN :: string where
  "TRAIN = ''train''"

definition EVAL :: string where
  "EVAL = ''eval''"

definition PREDICT :: string where
  "PREDICT = ''infer''"

subsection \<open>Dictionary access\<close>

definition getitem :: "(string \<rightharpoonup> 'a) \<Rightarrow> string \<Rightarrow> error + 'a" where
  "getitem d k = (case d k of None \<Rightarrow> Inl (KeyError k) | Some v \<Rightarrow> Inr v)"

subsection \<open>The dense layer\<close>

definition relu :: "real \<Rightarrow> real" where
  "relu z = max 0 z"

fun activate :: "activation \<Rightarrow> real \<Rightarrow> real" where
  "activate Relu z = relu z"
| "activate Linear z = z"

text \<open>
  \<open>matmul X K units\<close> is the product of \<open>X\<close> (one row per example) with a kernel of
  \<open>length K\<close> rows and \<open>units\<close> columns; \<open>bias_add\<close> adds the bias to every row.
\<close>

definition matmul :: "matrix \<Rightarrow> matrix \<Rightarrow> nat \<Rightarrow> matrix" where
  "matmul X K units =
     map (\<lambda>r. map (\<lambda>j. sum_list (map (\<lambda>k. r ! k * K ! k ! j) [0..<length K])) [0..<units]) X"

definition bias_add :: "matrix \<Rightarrow> vec \<Rightarrow> matrix" where
  "bias_add Z b = map (\<lambda>r. map (\<lambda>j. r ! j + b ! j) [0..<length b]) Z"

definition pre_activation :: "nat \<Rightarrow> matrix \<Rightarrow> vec \<Rightarrow> matrix \<Rightarrow> matrix" where
  "pre_activation units K b X = bias_add (matmul X K units) b"

definition shapes_ok :: "nat \<Rightarrow> matrix \<Rightarrow> vec \<Rightarrow> matrix \<Rightarrow> bool" where
  "shapes_ok units K b X \<longleftrightarrow>
     list_all (\<lambda>r. length r = length K) X \<and> list_all (\<lambda>kr. length kr = units) K \<and>
     length b = units"

text \<open>
  \<open>Dense(units, activation)(X)\<close> with the layer's kernel \<open>K\<close> and bias \<open>b\<close>:
  \<open>activation(X K + b)\<close>. In the framework the layer creates its variables with
  the shapes \<open>[width of X, units]\<close> and \<open>[units]\<close> and fills them from the session;
  here the variables are given, and variables of any other shape, or rows of \<open>X\<close> of
  another width than the kernel has rows, are the framework's shape error. No width is
  fixed by the script's \<open>model_fn\<close> itself.
\<close>

definition Dense :: "nat \<Rightarrow> activation \<Rightarrow> matrix \<Rightarrow> vec \<Rightarrow> matrix \<Rightarrow> error + matrix" where
  "Dense units act K b X =
     (if shapes_ok units K b X
      then Inr (map (map (activate act)) (pre_activation units K b X))
      else Inl ShapeError)"

text \<open>\<open>tf.reshape(t, [-1])\<close>: the rows one after the other, as 32-bit floats.\<close>

definition reshape_flat :: "matrix \<Rightarrow> tensor" where
  "reshape_flat M = \<lparr>dtype = DT_FLOAT, elems = concat M\<rparr>"

subsection \<open>Loss and metric\<close>

text \<open>
  \<open>tf.cast(labels, dtype)\<close> on the integer labels; \<open>None\<close> cannot be converted to
  a tensor. \<open>DT_FLOAT\<close> is \<open>tf.float32\<close>, \<open>DT_DOUBLE\<close> is \<open>tf.float64\<close>.
  \<open>to_float\<close> is the conversion that the loss applies to its arguments.
\<close>

definition to_float :: "int list \<Rightarrow> vec" where
  "to_float ls = map real_of_int ls"

definition tf_cast :: "int list option \<Rightarrow> dtype \<Rightarrow> error + tensor" where
  "tf_cast labels dt =
     (case labels of
        None \<Rightarrow> Inl NoneValue
      | Some ls \<Rightarrow> Inr \<lparr>dtype = dt, elems = map real_of_int ls\<rparr>)"

text \<open>The framework's guarded division: zero unless the denominator is positive.\<close>

definition safe_div :: "real \<Rightarrow> real \<Rightarrow> real" where
  "safe_div a b = (if 0 < b then a / b else 0)"

definition squared_difference :: "vec \<Rightarrow> vec \<Rightarrow> vec" where
  "squared_difference ps ys = map (\<lambda>i. (ps ! i - ys ! i)\<^sup>2) [0..<length ps]"

definition mse :: "vec \<Rightarrow> vec \<Rightarrow> real" where
  "mse ys ps = safe_div (sum_list (squared_difference ps ys)) (real (length ps))"

text \<open>
  \<open>tf.losses.mean_squared_error(labels, predictions)\<close>: raises when \<open>labels\<close> is
  \<open>None\<close> and when the two shapes differ; converts both arguments to 32-bit floats and
  returns the sum of the squared differences divided by their number.
\<close>

definition mean_squared_error :: "int list option \<Rightarrow> tensor \<Rightarrow> error + real" where
  "mean_squared_error labels predictions =
     (case labels of
        None \<Rightarrow> Inl NoneValue
      | Some ls \<Rightarrow>
          if length ls \<noteq> length (elems predictions) then Inl ShapeError
          else Inr (mse (to_float ls) (elems predictions)))"

text \<open>
  \<open>tf.metrics.root_mean_squared_error(labels, predictions)\<close>, a streaming metric whose
  accumulators \<open>total\<close> and \<open>count\<close> start at zero: the value after the update with
  this batch. The subtraction \<open>labels - predictions\<close> needs both operands of one element
  type and one shape.
\<close>

definition root_mean_squared_error :: "tensor \<Rightarrow> tensor \<Rightarrow> error + real" where
  "root_mean_squared_error labels predictions =
     (if length (elems labels) \<noteq> length (elems predictions) then Inl ShapeError
      else if dtype labels \<noteq> dtype predictions then Inl DTypeMismatch
      else
        let total = 0 + sum_list (squared_difference (elems labels) (elems predictions));
            count = 0 + real (length (elems predictions))
        in Inr (sqrt (safe_div total count)))"

subsection \<open>The values inside the network\<close>

text \<open>The values that flow through the three layers when every shape fits (the
  pre-activations \<open>z\<close>, the rectified values \<open>h\<close>), and the flattened output.\<close>

definition z1 :: "variables \<Rightarrow> matrix \<Rightarrow> matrix" where
  "z1 vs X = pre_activation 10 (kernel1 vs) (bias1 vs) X"

definition h1 :: "variables \<Rightarrow> matrix \<Rightarrow> matrix" where
  "h1 vs X = map (map relu) (z1 vs X)"

definition z2 :: "variables \<Rightarrow> matrix \<Rightarrow> matrix" where
  "z2 vs X = pre_activation 10 (kernel2 vs) (bias2 vs) (h1 vs X)"

definition h2 :: "variables \<Rightarrow> matrix \<Rightarrow> matrix" where
  "h2 vs X = map (map relu) (z2 vs X)"

definition z3 :: "variables \<Rightarrow> matrix \<Rightarrow> matrix" where
  "z3 vs X = pre_activation 1 (kernel3 vs) (bias3 vs) (h2 vs X)"

definition predict :: "variables \<Rightarrow> matrix \<Rightarrow> vec" where
  "predict vs X = concat (z3 vs X)"

subsection \<open>Reverse-mode gradients of the loss\<close>

text \<open>
  \<open>optimize_loss\<close> asks the framework for the gradients of the loss with respect to
  the six trainable variables. They are written out here layer by layer, as the
  framework's gradient functions compute them: the gradient of the mean of squares, of
  the matrix product, of the bias addition, and of the rectifier (which lets a gradient
  through where the pre-activation is positive).
\<close>

record gradients =
  d_kernel1 :: matrix
  d_bias1 :: vec
  d_kernel2 :: matrix
  d_bias2 :: vec
  d_kernel3 :: matrix
  d_bias3 :: vec

definition mse_grad :: "vec \<Rightarrow> vec \<Rightarrow> vec" where
  "mse_grad ys ps =
     map (\<lambda>i. safe_div (2 * (ps ! i - ys ! i)) (real (length ps))) [0..<length ps]"

definition kernel_grad :: "matrix \<Rightarrow> matrix \<Rightarrow> nat \<Rightarrow> nat \<Rightarrow> matrix" where
  "kernel_grad X dZ rows units =
     map (\<lambda>k. map (\<lambda>j. sum_list (map (\<lambda>i. X ! i ! k * dZ ! i ! j) [0..<length X]))
                 [0..<units]) [0..<rows]"

definition bias_grad :: "matrix \<Rightarrow> nat \<Rightarrow> vec" where
  "bias_grad dZ units =
     map (\<lambda>j. sum_list (map (\<lambda>i. dZ ! i ! j) [0..<length dZ])) [0..<units]"

definition input_grad :: "matrix \<Rightarrow> matrix \<Rightarrow> nat \<Rightarrow> matrix" where
  "input_grad dZ K units =
     map (\<lambda>dz. map (\<lambda>k. sum_list (map (\<lambda>j. dz ! j * K ! k ! j) [0..<units]))
                  [0..<length K]) dZ"

definition relu_grad :: "matrix \<Rightarrow> matrix \<Rightarrow> nat \<Rightarrow> matrix" where
  "relu_grad Z dH units =
     map (\<lambda>i. map (\<lambda>j. if 0 < Z ! i ! j then dH ! i ! j else 0) [0..<units]) [0..<length Z]"

text \<open>
  The gradient of the loss with respect to the output of the last layer and to the
  pre-activations of the two hidden layers.
\<close>

definition d_out :: "variables \<Rightarrow> matrix \<Rightarrow> vec \<Rightarrow> matrix" where
  "d_out vs X ys = map (\<lambda>g. [g]) (mse_grad ys (predict vs X))"

definition d_z2 :: "variables \<Rightarrow> matrix \<Rightarrow> vec \<Rightarrow> matrix" where
  "d_z2 vs X ys = relu_grad (z2 vs X) (input_grad (d_out vs X ys) (kernel3 vs) 1) 10"

definition d_z1 :: "variables \<Rightarrow> matrix \<Rightarrow> vec \<Rightarrow> matrix" where
  "d_z1 vs X ys = relu_grad (z1 vs X) (input_grad (d_z2 vs X ys) (kernel2 vs) 10) 10"

definition compute_gradients :: "variables \<Rightarrow> matrix \<Rightarrow> vec \<Rightarrow> gradients" where
  "compute_gradients vs X ys =
     \<lparr>d_kernel1 = kernel_grad X (d_z1 vs X ys) (length (kernel1 vs)) 10,
      d_bias1 = bias_grad (d_z1 vs X ys) 10,
      d_kernel2 = kernel_grad (h1 vs X) (d_z2 vs X ys) (length (kernel2 vs)) 10,
      d_bias2 = bias_grad (d_z2 vs X ys) 10,
      d_kernel3 = kernel_grad (h2 vs X) (d_out vs X ys) (length (kernel3 vs)) 1,
      d_bias3 = bias_grad (d_out vs X ys) 1\<rparr>"

text \<open>One step of gradient descent on a vector and on a matrix.\<close>

definition descend_vec :: "real \<Rightarrow> vec \<Rightarrow> vec \<Rightarrow> vec" where
  "descend_vec lr w g = map (\<lambda>j. w ! j - lr * g ! j) [0..<length w]"

definition descend_mat :: "real \<Rightarrow> matrix \<Rightarrow> matrix \<Rightarrow> matrix" where
  "descend_mat lr K G = map (\<lambda>k. descend_vec lr (K ! k) (G ! k)) [0..<length K]"

definition apply_gradients :: "real \<Rightarrow> gradients \<Rightarrow> variables \<Rightarrow> variables" where
  "apply_gradients lr g vs =
     \<lparr>kernel1 = descend_mat lr (kernel1 vs) (d_kernel1 g),
      bias1 = descend_vec lr (bias1 vs) (d_bias1 g),
      kernel2 = descend_mat lr (kernel2 vs) (d_kernel2 g),
      bias2 = descend_vec lr (bias2 vs) (d_bias2 g),
      kernel3 = descend_mat lr (kernel3 vs) (d_kernel3 g),
      bias3 = descend_vec lr (bias3 vs) (d_bias3 g),
      global_step = global_step vs + 1,
      optimizer_learning_rate = Some lr\<rparr>"

text \<open>
  The learning rate variable of the optimizer: created with the rate that was passed,
  unless the session already holds a stored rate, which then stays.
\<close>

definition get_learning_rate :: "variables \<Rightarrow> real \<Rightarrow> real" where
  "get_learning_rate vs initial =
     (case optimizer_learning_rate vs of None \<Rightarrow> initial | Some stored \<Rightarrow> stored)"

text \<open>
  \<open>tf.contrib.layers.optimize_loss(loss, global_step, learning_rate, optimizer="SGD")\<close>
  for the loss built from the batch \<open>X\<close>, \<open>labels\<close>: a learning rate that is not a
  Python float and a negative learning rate are rejected; the operation it returns
  subtracts the rate of the learning rate variable times the gradient from every trainable
  variable and adds one to the global step.
\<close>

definition optimize_loss ::
  "variables \<Rightarrow> matrix \<Rightarrow> int list option \<Rightarrow> pyvalue \<Rightarrow> error + variables" where
  "optimize_loss vs X labels learning_rate =
     (case labels of
        None \<Rightarrow> Inl NoneValue
      | Some ls \<Rightarrow>
          (case learning_rate of
             PyFloat r \<Rightarrow>
               if r < 0 then Inl InvalidLearningRate
               else Inr (apply_gradients (get_learning_rate vs r)
                           (compute_gradients vs X (to_float ls)) vs)
           | PyInt i \<Rightarrow> Inl LearningRateType
           | PyStr t \<Rightarrow> Inl LearningRateType))"

subsection \<open>The model function\<close>

text \<open>
  The first four statements of \<open>model_fn\<close>: the two hidden layers of ten rectified
  units, the linear output unit, and the flattening of the \<open>[n, 1]\<close> output.
\<close>

definition network :: "variables \<Rightarrow> matrix \<Rightarrow> error + tensor" where
  "network vs inputs =
     (case Dense 10 Relu (kernel1 vs) (bias1 vs) inputs of Inl e \<Rightarrow> Inl e
      | Inr first_hidden_layer \<Rightarrow>
      case Dense 10 Relu (kernel2 vs) (bias2 vs) first_hidden_layer of Inl e \<Rightarrow> Inl e
      | Inr second_hidden_layer \<Rightarrow>
      case Dense 1 Linear (kernel3 vs) (bias3 vs) second_hidden_layer of Inl e \<Rightarrow> Inl e
      | Inr output_layer \<Rightarrow> Inr (reshape_flat output_layer))"

definition model_fn ::
  "variables \<Rightarrow> (string \<rightharpoonup> matrix) \<Rightarrow> int list option \<Rightarrow> string \<Rightarrow> (string \<rightharpoonup> pyvalue)
     \<Rightarrow> error + EstimatorSpec" where
  "model_fn vs features labels mode params =
     (case getitem features INPUT_TENSOR_NAME of Inl e \<Rightarrow> Inl e | Inr inputs \<Rightarrow>
      case network vs inputs of Inl e \<Rightarrow> Inl e | Inr predictions \<Rightarrow>
      if mode = PREDICT then
        Inr \<lparr>spec_mode = mode,
             spec_predictions = Some [''ages'' \<mapsto> predictions],
             spec_loss = None,
             spec_train_op = None,
             spec_eval_metric_ops = None,
             spec_export_outputs =
               Some [SIGNATURE_NAME \<mapsto> PredictOutput [''ages'' \<mapsto> predictions]]\<rparr>
      else
      case mean_squared_error labels predictions of Inl e \<Rightarrow> Inl e | Inr loss \<Rightarrow>
      case getitem params ''learning_rate'' of Inl e \<Rightarrow> Inl e | Inr learning_rate \<Rightarrow>
      case optimize_loss vs inputs labels learning_rate of Inl e \<Rightarrow> Inl e
      | Inr train_op \<Rightarrow>
      case tf_cast labels DT_FLOAT of Inl e \<Rightarrow> Inl e | Inr float_labels \<Rightarrow>
      case root_mean_squared_error float_labels predictions of Inl e \<Rightarrow> Inl e
      | Inr rmse \<Rightarrow>
        Inr \<lparr>spec_mode = mode,
             spec_predictions = None,
             spec_loss = Some loss,
             spec_train_op = Some train_op,
             spec_eval_metric_ops = Some [''rmse'' \<mapsto> rmse],
             spec_export_outputs = None\<rparr>)"

subsection \<open>Running the operations of a result\<close>

text \<open>
  The result of \<open>model_fn\<close> is a piece of graph. The only operation in it that writes
  to the variables is the training operation; predictions, loss and metric read them.
  \<open>run_ops\<close> gives the variables after every writing operation that the result holds
  has run once.
\<close>

definition run_ops :: "EstimatorSpec \<Rightarrow> variables \<Rightarrow> variables" where
  "run_ops spec vs = (case spec_train_op spec of None \<Rightarrow> vs | Some vs' \<Rightarrow> vs')"

text \<open>
  \<open>tf.estimator\<close> calls \<open>model_fn\<close> to build the graph and then runs the part of
  the result that belongs to the mode: \<open>train()\<close> runs \<open>train_op\<close>;
  \<open>evaluate()\<close> reads the loss and the metrics, \<open>predict()\<close> the predictions.
  \<open>invoke\<close> returns the result of \<open>model_fn\<close> and the variables after the call.
\<close>

definition invoke ::
  "variables \<Rightarrow> (string \<rightharpoonup> matrix) \<Rightarrow> int list option \<Rightarrow> string \<Rightarrow> (string \<rightharpoonup> pyvalue)
     \<Rightarrow> error + (EstimatorSpec \<times> variables)" where
  "invoke vs features labels mode params =
     (case model_fn vs features labels mode params of
        Inl e \<Rightarrow> Inl e
      | Inr spec \<Rightarrow> Inr (spec, if mode = TRAIN then run_ops spec vs else vs))"

text \<open>Two states of the variables with the same kernels and biases.\<close>

definition same_weights :: "variables \<Rightarrow> variables \<Rightarrow> bool" where
  "same_weights vs vs' \<longleftrightarrow>
     kernel1 vs = kernel1 vs' \<and> bias1 vs = bias1 vs' \<and>
     kernel2 vs = kernel2 vs' \<and> bias2 vs = bias2 vs' \<and>
     kernel3 vs = kernel3 vs' \<and> bias3 vs = bias3 vs'"

subsection \<open>Shapes and example states\<close>

text \<open>
  The variables of a network for feature rows of width \<open>d\<close>: kernels of shape
  \<open>[d, 10]\<close>, \<open>[10, 10]\<close>, \<open>[10, 1]\<close> and biases of length 10, 10, 1. The abalone
  data has \<open>d = 7\<close>.
\<close>

definition variables_shaped :: "nat \<Rightarrow> variables \<Rightarrow> bool" where
  "variables_shaped d vs \<longleftrightarrow>
     length (kernel1 vs) = d \<and> list_all (\<lambda>kr. length kr = 10) (kernel1 vs) \<and>
     length (bias1 vs) = 10 \<and>
     length (kernel2 vs) = 10 \<and> list_all (\<lambda>kr. length kr = 10) (kernel2 vs) \<and>
     length (bias2 vs) = 10 \<and>
     length (kernel3 vs) = 10 \<and> list_all (\<lambda>kr. length kr = 1) (kernel3 vs) \<and>
     length (bias3 vs) = 1"

definition features_shaped :: "nat \<Rightarrow> matrix \<Rightarrow> bool" where
  "features_shaped d X \<longleftrightarrow> list_all (\<lambda>r. length r = d) X"

text \<open>A state of the variables with every weight and every bias zero.\<close>

definition zero_variables :: "64 word \<Rightarrow> variables" where
  "zero_variables step =
     \<lparr>kernel1 = replicate 7 (replicate 10 0), bias1 = replicate 10 0,
      kernel2 = replicate 10 (replicate 10 0), bias2 = replicate 10 0,
      kernel3 = replicate 10 [0], bias3 = [0], global_step = step,
      optimizer_learning_rate = None\<rparr>"

text \<open>The same for feature rows of another width \<open>d\<close>.\<close>

definition zero_variables_of_width :: "nat \<Rightarrow> variables" where
  "zero_variables_of_width d =
     \<lparr>kernel1 = replicate d (replicate 10 0), bias1 = replicate 10 0,
      kernel2 = replicate 10 (replicate 10 0), bias2 = replicate 10 0,
      kernel3 = replicate 10 [0], bias3 = [0], global_step = 0,
      optimizer_learning_rate = None\<rparr>"

text \<open>
  A run of training: one \<open>TRAIN\<close> invocation per batch, each on the variables the
  previous one left.
\<close>

fun train_run ::
  "variables \<Rightarrow> ((string \<rightharpoonup> matrix) \<times> int list option) list \<Rightarrow> (string \<rightharpoonup> pyvalue)
     \<Rightarrow> error + variables" where
  "train_run vs [] params = Inr vs"
| "train_run vs ((features, labels) # batches) params =
     (case invoke vs features labels TRAIN params of
        Inl e \<Rightarrow> Inl e
      | Inr (spec, vs') \<Rightarrow> train_run vs' batches params)"

subsection \<open>The loss along a direction in the space of variables\<close>

text \<open>
  The loss of the network on a batch, as a function of the variables. It is what
  \<open>model_fn\<close> returns as \<open>loss\<close> for labels \<open>ls\<close> with \<open>ys = to_float ls\<close>.
\<close>

definition batch_loss :: "variables \<Rightarrow> matrix \<Rightarrow> vec \<Rightarrow> real" where
  "batch_loss vs X ys = mse ys (predict vs X)"

text \<open>
  The rectifier has a kink at zero. The loss is differentiable in the variables where no
  pre-activation of a hidden unit is zero on the batch.
\<close>

definition smooth_at :: "variables \<Rightarrow> matrix \<Rightarrow> bool" where
  "smooth_at vs X \<longleftrightarrow>
     list_all (list_all (\<lambda>z. z \<noteq> 0)) (z1 vs X) \<and> list_all (list_all (\<lambda>z. z \<noteq> 0)) (z2 vs X)"

text \<open>
  The inner product of two records of gradients for a network with input width \<open>d\<close>:
  the sum over all weights and biases of the products of the entries.
\<close>

definition dot_vec :: "nat \<Rightarrow> vec \<Rightarrow> vec \<Rightarrow> real" where
  "dot_vec u a b = (\<Sum>j<u. a ! j * b ! j)"

definition dot_mat :: "nat \<Rightarrow> nat \<Rightarrow> matrix \<Rightarrow> matrix \<Rightarrow> real" where
  "dot_mat rows u A B = (\<Sum>k<rows. \<Sum>j<u. A ! k ! j * B ! k ! j)"

definition dot_gradients :: "nat \<Rightarrow> gradients \<Rightarrow> gradients \<Rightarrow> real" where
  "dot_gradients d g D =
     dot_mat d 10 (d_kernel1 g) (d_kernel1 D) + dot_vec 10 (d_bias1 g) (d_bias1 D) +
     dot_mat 10 10 (d_kernel2 g) (d_kernel2 D) + dot_vec 10 (d_bias2 g) (d_bias2 D) +
     dot_mat 10 1 (d_kernel3 g) (d_kernel3 D) + dot_vec 1 (d_bias3 g) (d_bias3 D)"

text \<open>
  When the variables move from \<open>vs\<close> along \<open>- D\<close> (as \<open>apply_gradients t D vs\<close> does
  with \<open>t\<close>), these are the rates of change at \<open>t = 0\<close> of the values inside the
  network, for row \<open>i\<close> of the batch and unit \<open>j\<close>.
\<close>

definition tangent_z1 :: "nat \<Rightarrow> gradients \<Rightarrow> matrix \<Rightarrow> nat \<Rightarrow> nat \<Rightarrow> real" where
  "tangent_z1 d D X i j = - (\<Sum>k<d. X ! i ! k * d_kernel1 D ! k ! j) - d_bias1 D ! j"

definition tangent_h1 :: "variables \<Rightarrow> nat \<Rightarrow> gradients \<Rightarrow> matrix \<Rightarrow> nat \<Rightarrow> nat \<Rightarrow> real" where
  "tangent_h1 vs d D X i j = (if 0 < z1 vs X ! i ! j then tangent_z1 d D X i j else 0)"

definition tangent_z2 :: "variables \<Rightarrow> nat \<Rightarrow> gradients \<Rightarrow> matrix \<Rightarrow> nat \<Rightarrow> nat \<Rightarrow> real" where
  "tangent_z2 vs d D X i j =
     (\<Sum>k<10. tangent_h1 vs d D X i k * kernel2 vs ! k ! j - h1 vs X ! i ! k * d_kernel2 D ! k ! j)
     - d_bias2 D ! j"

definition tangent_h2 :: "variables \<Rightarrow> nat \<Rightarrow> gradients \<Rightarrow> matrix \<Rightarrow> nat \<Rightarrow> nat \<Rightarrow> real" where
  "tangent_h2 vs d D X i j = (if 0 < z2 vs X ! i ! j then tangent_z2 vs d D X i j else 0)"

definition tangent_z3 :: "variables \<Rightarrow> nat \<Rightarrow> gradients \<Rightarrow> matrix \<Rightarrow> nat \<Rightarrow> nat \<Rightarrow> real" where
  "tangent_z3 vs d D X i j =
     (\<Sum>k<10. tangent_h2 vs d D X i k * kernel3 vs ! k ! j - h2 vs X ! i ! k * d_kernel3 D ! k ! j)
     - d_bias3 D ! j"

text \<open>
  States of the variables with zero kernels and constant biases \<open>c1\<close>, \<open>c2\<close>, \<open>c3\<close>
  in the three layers.
\<close>

definition bias_only_variables :: "real \<Rightarrow> real \<Rightarrow> real \<Rightarrow> 64 word \<Rightarrow> variables" where
  "bias_only_variables c1 c2 c3 step =
     \<lparr>kernel1 = replicate 7 (replicate 10 0), bias1 = replicate 10 c1,
      kernel2 = replicate 10 (replicate 10 0), bias2 = replicate 10 c2,
      kernel3 = replicate 10 [0], bias3 = [c3], global_step = step,
      optimizer_learning_rate = None\<rparr>"


text \<open>
  A state at a kink of the loss for the batch of the one row \<open>[1, 0, 0, 0, 0, 0, 0]\<close>:
  the first unit of each hidden layer is active, the second unit of the second hidden
  layer has the pre-activation zero, and every other hidden unit is inactive.
\<close>

definition kink_variables :: variables where
  "kink_variables =
     \<lparr>kernel1 = [1, 0, 0, 0, 0, 0, 0, 0, 0, 0] # replicate 6 (replicate 10 0),
      bias1 = 0 # replicate 9 (- 1),
      kernel2 = [1, 1, 0, 0, 0, 0, 0, 0, 0, 0] # replicate 9 (replicate 10 0),
      bias2 = [0, - 1] @ replicate 8 (- 1),
      kernel3 = [[1], [- 4]] @ replicate 8 [0],
      bias3 = [0], global_step = 0, optimizer_learning_rate = None\<rparr>"

section \<open>Properties\<close>

subsection \<open>Shapes and the unfolding of the model function\<close>

lemma activate_fun [simp]: "activate Relu = relu" "activate Linear = (\<lambda>z. z)"
  by (rule ext, simp)+

lemma length_pre_activation [simp]: "length (pre_activation u K b X) = length X"
  by (simp add: pre_activation_def bias_add_def matmul_def)

lemma pre_activation_row_length:
  "i < length X \<Longrightarrow> length (pre_activation u K b X ! i) = length b"
  by (simp add: pre_activation_def bias_add_def matmul_def)

lemma pre_activation_nth:
  "i < length X \<Longrightarrow> j < u \<Longrightarrow> length b = u \<Longrightarrow>
   pre_activation u K b X ! i ! j = (\<Sum>k<length K. X ! i ! k * K ! k ! j) + b ! j"
  by (simp add: pre_activation_def bias_add_def matmul_def interv_sum_list_conv_sum_set_nat atLeast0LessThan)

lemma Dense_eq_Inr:
  "Dense u a K b X = Inr Y \<longleftrightarrow>
     shapes_ok u K b X \<and> Y = map (map (activate a)) (pre_activation u K b X)"
  by (auto simp: Dense_def)

lemma rows_activated:
  "length b = u \<Longrightarrow> list_all (\<lambda>r. length r = u) (map (map f) (pre_activation u K b X))"
  by (simp add: list_all_length pre_activation_row_length)

lemma network_shaped:
  assumes "variables_shaped d vs" "features_shaped d X"
  shows "network vs X = Inr \<lparr>dtype = DT_FLOAT, elems = predict vs X\<rparr>"
  using assms rows_activated[of "bias1 vs" 10 relu "kernel1 vs" X]
    rows_activated[of "bias2 vs" 10 relu "kernel2 vs" "h1 vs X"]
  by (simp add: network_def Dense_def shapes_ok_def variables_shaped_def features_shaped_def
      reshape_flat_def predict_def z3_def h2_def z2_def h1_def z1_def)

lemma length_concat_singletons:
  "list_all (\<lambda>r. length r = 1) Y \<Longrightarrow> length (concat Y) = length Y"
  by (induction Y) auto

lemma length_predict:
  "length (bias3 vs) = 1 \<Longrightarrow> length (predict vs X) = length X"
  unfolding predict_def z3_def
  using length_concat_singletons[OF rows_activated[of "bias3 vs" 1 id "kernel3 vs" "h2 vs X"]]
  by (simp add: h2_def z2_def h1_def z1_def)


lemma network_Inr:
  assumes "network vs X = Inr p"
  shows "p = \<lparr>dtype = DT_FLOAT, elems = predict vs X\<rparr>"
    and "length (elems p) = length X"
    and "features_shaped (length (kernel1 vs)) X"
proof -
  from assms have s1: "shapes_ok 10 (kernel1 vs) (bias1 vs) X"
    by (auto simp: network_def Dense_def split: if_splits)
  with assms have s2: "shapes_ok 10 (kernel2 vs) (bias2 vs) (h1 vs X)"
    by (auto simp: network_def Dense_def h1_def z1_def split: if_splits)
  with assms s1 have s3: "shapes_ok 1 (kernel3 vs) (bias3 vs) (h2 vs X)"
    by (auto simp: network_def Dense_def h1_def z1_def h2_def z2_def split: if_splits)
  from assms s1 s2 s3 show p: "p = \<lparr>dtype = DT_FLOAT, elems = predict vs X\<rparr>"
    by (auto simp: network_def Dense_def h1_def z1_def h2_def z2_def z3_def predict_def
        reshape_flat_def)
  from s3 have "length (bias3 vs) = 1" by (simp add: shapes_ok_def)
  with p show "length (elems p) = length X" by (simp add: length_predict)
  from s1 show "features_shaped (length (kernel1 vs)) X"
    by (simp add: shapes_ok_def features_shaped_def)
qed

lemma PREDICT_neq [simp]: "PREDICT \<noteq> TRAIN" "PREDICT \<noteq> EVAL" "TRAIN \<noteq> PREDICT" "EVAL \<noteq> PREDICT" "TRAIN \<noteq> EVAL" "EVAL \<noteq> TRAIN"
  by (simp_all add: PREDICT_def TRAIN_def EVAL_def)

lemma model_fn_PREDICT:
  "model_fn vs features labels PREDICT params =
     (case features INPUT_TENSOR_NAME of
        None \<Rightarrow> Inl (KeyError INPUT_TENSOR_NAME)
      | Some X \<Rightarrow>
          (case network vs X of
             Inl e \<Rightarrow> Inl e
           | Inr p \<Rightarrow>
               Inr \<lparr>spec_mode = PREDICT,
                    spec_predictions = Some [''ages'' \<mapsto> p],
                    spec_loss = None,
                    spec_train_op = None,
                    spec_eval_metric_ops = None,
                    spec_export_outputs =
                      Some [SIGNATURE_NAME \<mapsto> PredictOutput [''ages'' \<mapsto> p]]\<rparr>))"
  by (simp add: model_fn_def getitem_def split: option.splits sum.splits)

lemma sum_squared_difference_commute:
  "length a = length b \<Longrightarrow>
   sum_list (squared_difference a b) = sum_list (squared_difference b a)"
  by (simp add: squared_difference_def power2_commute)

lemma sum_squared_difference_nonneg: "0 \<le> sum_list (squared_difference a b)"
  by (rule sum_list_nonneg) (auto simp: squared_difference_def)

lemma mse_nonneg: "0 \<le> mse ys ps"
  by (simp add: mse_def safe_div_def sum_squared_difference_nonneg)

lemma mse_as_sum:
  "mse ys ps = safe_div (\<Sum>i<length ps. (ys ! i - ps ! i)\<^sup>2) (real (length ps))"
  by (simp add: mse_def squared_difference_def interv_sum_list_conv_sum_set_nat
      atLeast0LessThan power2_commute)

lemma model_fn_other:
  assumes "mode \<noteq> PREDICT"
  shows "model_fn vs features labels mode params =
     (case features INPUT_TENSOR_NAME of
        None \<Rightarrow> Inl (KeyError INPUT_TENSOR_NAME)
      | Some X \<Rightarrow>
          (case network vs X of
             Inl e \<Rightarrow> Inl e
           | Inr p \<Rightarrow>
               (case labels of
                  None \<Rightarrow> Inl NoneValue
                | Some ls \<Rightarrow>
                    if length ls \<noteq> length X then Inl ShapeError
                    else (case params ''learning_rate'' of
                            None \<Rightarrow> Inl (KeyError ''learning_rate'')
                          | Some (PyInt i) \<Rightarrow> Inl LearningRateType
                          | Some (PyStr t) \<Rightarrow> Inl LearningRateType
                          | Some (PyFloat lr) \<Rightarrow>
                              if lr < 0 then Inl InvalidLearningRate
                              else
                                Inr \<lparr>spec_mode = mode,
                                     spec_predictions = None,
                                     spec_loss = Some (mse (to_float ls) (predict vs X)),
                                     spec_train_op =
                                       Some (apply_gradients (get_learning_rate vs lr)
                                              (compute_gradients vs X (to_float ls)) vs),
                                     spec_eval_metric_ops =
                                       Some [''rmse'' \<mapsto>
                                               sqrt (mse (to_float ls) (predict vs X))],
                                     spec_export_outputs = None\<rparr>))))"
proof (cases "features INPUT_TENSOR_NAME")
  case None
  then show ?thesis by (simp add: model_fn_def getitem_def)
next
  case (Some X)
  show ?thesis
  proof (cases "network vs X")
    case (Inl e)
    with Some show ?thesis by (simp add: model_fn_def getitem_def)
  next
    case (Inr p)
    note p = network_Inr[OF Inr]
    show ?thesis
    proof (cases labels)
      case None
      with Some Inr assms show ?thesis
        by (simp add: model_fn_def getitem_def mean_squared_error_def)
    next
      case (Some ls)
      show ?thesis
      proof (cases "length ls = length X")
        case False
        with Some \<open>features INPUT_TENSOR_NAME = Some X\<close> Inr assms p(2) show ?thesis
          by (simp add: model_fn_def getitem_def mean_squared_error_def)
      next
        case True
        have "sum_list (squared_difference (map real_of_int ls) (predict vs X)) =
              sum_list (squared_difference (predict vs X) (map real_of_int ls))"
          using True p by (intro sum_squared_difference_commute) simp
        with True Some \<open>features INPUT_TENSOR_NAME = Some X\<close> Inr assms p show ?thesis
          by (simp add: model_fn_def getitem_def mean_squared_error_def optimize_loss_def
              tf_cast_def root_mean_squared_error_def mse_def to_float_def
              split: option.splits pyvalue.splits)
      qed
    qed
  qed
qed

subsection \<open>The all-zero state\<close>

lemma pre_activation_zero:
  assumes "length b = u" "\<forall>k<length K. \<forall>j<u. K ! k ! j = 0" "\<forall>j<u. b ! j = 0"
  shows "pre_activation u K b X = replicate (length X) (replicate u 0)"
  using assms
  by (auto intro!: nth_equalityI simp: pre_activation_nth pre_activation_row_length)

lemma concat_replicate_singleton: "concat (replicate n [x]) = replicate n x"
  by (induction n) simp_all

lemma relu_zero [simp]: "relu 0 = 0"
  by (simp add: relu_def)

lemma predict_zero_variables: "predict (zero_variables step) X = replicate (length X) 0"
proof -
  have a: "z1 (zero_variables step) X = replicate (length X) (replicate 10 0)"
    unfolding z1_def by (rule pre_activation_zero) (simp_all add: zero_variables_def)
  have b: "z2 (zero_variables step) X = replicate (length X) (replicate 10 0)"
    unfolding z2_def h1_def a
    using pre_activation_zero[of "bias2 (zero_variables step)" 10 "kernel2 (zero_variables step)"
        "map (map relu) (replicate (length X) (replicate 10 0))"]
    by (simp add: zero_variables_def)
  have c: "z3 (zero_variables step) X = replicate (length X) (replicate 1 0)"
    unfolding z3_def h2_def b
    using pre_activation_zero[of "bias3 (zero_variables step)" 1 "kernel3 (zero_variables step)"
        "map (map relu) (replicate (length X) (replicate 10 0))"]
    by (simp add: zero_variables_def)
  show ?thesis
    unfolding predict_def c by (simp add: concat_replicate_singleton)
qed

lemma zero_variables_shaped: "variables_shaped 7 (zero_variables step)"
  by (simp add: variables_shaped_def zero_variables_def list_all_iff)

lemma network_zero_variables:
  "features_shaped 7 X \<Longrightarrow>
   network (zero_variables step) X = Inr \<lparr>dtype = DT_FLOAT, elems = replicate (length X) 0\<rparr>"
  using network_shaped[OF zero_variables_shaped, of X step]
  by (simp add: predict_zero_variables)

lemma features_shaped_example [simp]: "features_shaped 7 [[0, 0, 0, 0, 0, 0, 0]]"
  by (simp add: features_shaped_def)

subsection \<open>The prediction branch\<close>

text \<open>
  Claim C1. In \<open>PREDICT\<close> mode a result of \<open>model_fn\<close> is tagged \<open>PREDICT\<close> and
  maps the key \<open>ages\<close> to the predictions of the network, one number per row of the
  features; it holds no loss, no training operation and no metric. The statements after
  the branch are not run: the result is the same when the labels are \<open>None\<close> and the
  hyperparameters are empty, with which those statements would fail.
\<close>

theorem predict_branch_result:
  assumes "model_fn vs features labels PREDICT params = Inr spec"
  shows "\<exists>X p. features INPUT_TENSOR_NAME = Some X \<and> network vs X = Inr p \<and>
           length (elems p) = length X \<and>
           spec = \<lparr>spec_mode = PREDICT,
                   spec_predictions = Some [''ages'' \<mapsto> p],
                   spec_loss = None,
                   spec_train_op = None,
                   spec_eval_metric_ops = None,
                   spec_export_outputs =
                     Some [SIGNATURE_NAME \<mapsto> PredictOutput [''ages'' \<mapsto> p]]\<rparr> \<and>
           model_fn vs features None PREDICT Map.empty = Inr spec"
proof -
  from assms obtain X where X: "features INPUT_TENSOR_NAME = Some X"
    by (auto simp: model_fn_PREDICT split: option.splits)
  with assms obtain p where p: "network vs X = Inr p"
    by (auto simp: model_fn_PREDICT split: sum.splits)
  from assms X p network_Inr(2)[OF p] show ?thesis
    by (auto simp: model_fn_PREDICT)
qed

theorem predict_branch_result_witness:
  "model_fn (zero_variables 0) [INPUT_TENSOR_NAME \<mapsto> [[0, 0, 0, 0, 0, 0, 0]]] (Some [3]) PREDICT
     Map.empty =
   Inr \<lparr>spec_mode = PREDICT,
        spec_predictions = Some [''ages'' \<mapsto> \<lparr>dtype = DT_FLOAT, elems = [0]\<rparr>],
        spec_loss = None,
        spec_train_op = None,
        spec_eval_metric_ops = None,
        spec_export_outputs =
          Some [SIGNATURE_NAME \<mapsto> PredictOutput [''ages'' \<mapsto> \<lparr>dtype = DT_FLOAT, elems = [0]\<rparr>]]\<rparr> \<and>
   (\<exists>X p. [INPUT_TENSOR_NAME \<mapsto> [[0, 0, 0, 0, 0, 0, 0]]] INPUT_TENSOR_NAME = Some X \<and>
      network (zero_variables 0) X = Inr p \<and> length (elems p) = length X \<and>
      model_fn (zero_variables 0) [INPUT_TENSOR_NAME \<mapsto> [[0, 0, 0, 0, 0, 0, 0]]] None PREDICT
        Map.empty =
      Inr \<lparr>spec_mode = PREDICT,
           spec_predictions = Some [''ages'' \<mapsto> p],
           spec_loss = None,
           spec_train_op = None,
           spec_eval_metric_ops = None,
           spec_export_outputs = Some [SIGNATURE_NAME \<mapsto> PredictOutput [''ages'' \<mapsto> p]]\<rparr>)"
proof -
  have h: "model_fn (zero_variables 0) [INPUT_TENSOR_NAME \<mapsto> [[0, 0, 0, 0, 0, 0, 0]]] (Some [3])
             PREDICT Map.empty =
           Inr \<lparr>spec_mode = PREDICT,
                spec_predictions = Some [''ages'' \<mapsto> \<lparr>dtype = DT_FLOAT, elems = [0]\<rparr>],
                spec_loss = None,
                spec_train_op = None,
                spec_eval_metric_ops = None,
                spec_export_outputs =
                  Some [SIGNATURE_NAME \<mapsto>
                          PredictOutput [''ages'' \<mapsto> \<lparr>dtype = DT_FLOAT, elems = [0]\<rparr>]]\<rparr>"
    by (simp add: model_fn_PREDICT network_zero_variables)
  from predict_branch_result[OF h] h show ?thesis
    by auto
qed

subsection \<open>The loss and the metric\<close>

lemma rmse_of_cast_labels:
  assumes "length ls = length ps"
  shows "root_mean_squared_error \<lparr>dtype = DT_FLOAT, elems = map real_of_int ls\<rparr>
           \<lparr>dtype = DT_FLOAT, elems = ps\<rparr> = Inr (sqrt (mse (to_float ls) ps))"
proof -
  have "sum_list (squared_difference (map real_of_int ls) ps) =
        sum_list (squared_difference ps (map real_of_int ls))"
    using assms by (intro sum_squared_difference_commute) simp
  with assms show ?thesis
    by (simp add: root_mean_squared_error_def mse_def to_float_def)
qed

lemma rmse_of_double_labels:
  assumes "length ls = length ps"
  shows "root_mean_squared_error \<lparr>dtype = DT_DOUBLE, elems = map real_of_int ls\<rparr>
           \<lparr>dtype = DT_FLOAT, elems = ps\<rparr> = Inl DTypeMismatch"
  using assms by (simp add: root_mean_squared_error_def)

lemma model_fn_other_Inr:
  assumes "mode \<noteq> PREDICT" "model_fn vs features labels mode params = Inr spec"
  obtains X ls lr where
    "features INPUT_TENSOR_NAME = Some X" "labels = Some ls" "length ls = length X"
    "params ''learning_rate'' = Some (PyFloat lr)" "0 \<le> lr"
    "network vs X = Inr \<lparr>dtype = DT_FLOAT, elems = predict vs X\<rparr>"
    "length (predict vs X) = length X"
    "spec = \<lparr>spec_mode = mode,
             spec_predictions = None,
             spec_loss = Some (mse (to_float ls) (predict vs X)),
             spec_train_op = Some (apply_gradients (get_learning_rate vs lr) (compute_gradients vs X (to_float ls)) vs),
             spec_eval_metric_ops = Some [''rmse'' \<mapsto> sqrt (mse (to_float ls) (predict vs X))],
             spec_export_outputs = None\<rparr>"
proof -
  from assms obtain X where X: "features INPUT_TENSOR_NAME = Some X"
    by (auto simp: model_fn_other split: option.splits)
  with assms obtain p where p: "network vs X = Inr p"
    by (auto simp: model_fn_other split: sum.splits)
  note n = network_Inr[OF p]
  from assms X p obtain ls where ls: "labels = Some ls"
    by (auto simp: model_fn_other split: option.splits)
  from assms X p ls have len: "length ls = length X"
    by (auto simp: model_fn_other split: if_splits)
  from assms X p ls len obtain lr where lr: "params ''learning_rate'' = Some (PyFloat lr)"
    by (auto simp: model_fn_other split: option.splits pyvalue.splits)
  from assms X p ls len lr have pos: "0 \<le> lr"
    by (auto simp: model_fn_other split: if_splits)
  from assms X p ls len lr pos have
    "spec = \<lparr>spec_mode = mode,
             spec_predictions = None,
             spec_loss = Some (mse (to_float ls) (predict vs X)),
             spec_train_op = Some (apply_gradients (get_learning_rate vs lr) (compute_gradients vs X (to_float ls)) vs),
             spec_eval_metric_ops = Some [''rmse'' \<mapsto> sqrt (mse (to_float ls) (predict vs X))],
             spec_export_outputs = None\<rparr>"
    by (simp add: model_fn_other)
  with X ls len lr pos p n that show thesis
    by simp
qed

lemma model_fn_other_shaped:
  assumes "mode \<noteq> PREDICT" "variables_shaped d vs" "features_shaped d X"
    "features INPUT_TENSOR_NAME = Some X" "length ls = length X"
    "params ''learning_rate'' = Some (PyFloat lr)" "0 \<le> lr"
  shows "model_fn vs features (Some ls) mode params =
     Inr \<lparr>spec_mode = mode,
          spec_predictions = None,
          spec_loss = Some (mse (to_float ls) (predict vs X)),
          spec_train_op = Some (apply_gradients (get_learning_rate vs lr) (compute_gradients vs X (to_float ls)) vs),
          spec_eval_metric_ops = Some [''rmse'' \<mapsto> sqrt (mse (to_float ls) (predict vs X))],
          spec_export_outputs = None\<rparr>"
  using assms network_shaped[OF assms(2,3)] by (simp add: model_fn_other)

lemma get_learning_rate_fresh [simp]:
  "get_learning_rate (zero_variables step) r = r"
  by (simp add: get_learning_rate_def zero_variables_def)

lemma mse_example: "mse (to_float [3]) [0] = 9"
  by (simp add: mse_def to_float_def squared_difference_def safe_div_def)

lemma sqrt_nine: "sqrt 9 = 3"
  using real_sqrt_abs[of 3] by simp

text \<open>
  Claim C2. In \<open>EVAL\<close> mode a result of \<open>model_fn\<close> holds the metric mapping with
  the one key \<open>rmse\<close>; its value, which the metric computes from the labels cast to
  floating point, is the square root of the loss of the same result, and the loss is not
  negative.
\<close>

theorem eval_rmse_is_sqrt_loss:
  assumes "model_fn vs features labels EVAL params = Inr spec"
  shows "\<exists>X ls fl loss.
           features INPUT_TENSOR_NAME = Some X \<and> labels = Some ls \<and> length ls = length X \<and>
           tf_cast labels DT_FLOAT = Inr fl \<and>
           root_mean_squared_error fl \<lparr>dtype = DT_FLOAT, elems = predict vs X\<rparr> =
             Inr (sqrt loss) \<and>
           spec_loss spec = Some loss \<and> 0 \<le> loss \<and>
           spec_eval_metric_ops spec = Some [''rmse'' \<mapsto> sqrt loss]"
proof -
  have ne: "EVAL \<noteq> PREDICT" by simp
  from model_fn_other_Inr[OF ne assms] obtain X ls lr where h:
    "features INPUT_TENSOR_NAME = Some X" "labels = Some ls" "length ls = length X"
    "length (predict vs X) = length X"
    "spec = \<lparr>spec_mode = EVAL,
             spec_predictions = None,
             spec_loss = Some (mse (to_float ls) (predict vs X)),
             spec_train_op = Some (apply_gradients (get_learning_rate vs lr) (compute_gradients vs X (to_float ls)) vs),
             spec_eval_metric_ops = Some [''rmse'' \<mapsto> sqrt (mse (to_float ls) (predict vs X))],
             spec_export_outputs = None\<rparr>"
    by blast
  from h(3,4) have "length ls = length (predict vs X)" by simp
  from rmse_of_cast_labels[OF this] h mse_nonneg[of "to_float ls" "predict vs X"]
  show ?thesis
    by (simp add: tf_cast_def)
qed

theorem eval_rmse_is_sqrt_loss_witness:
  "model_fn (zero_variables 0) [INPUT_TENSOR_NAME \<mapsto> [[0, 0, 0, 0, 0, 0, 0]]] (Some [3]) EVAL
     [''learning_rate'' \<mapsto> PyFloat (1 / 1000)] =
   Inr \<lparr>spec_mode = EVAL,
        spec_predictions = None,
        spec_loss = Some 9,
        spec_train_op =
          Some (apply_gradients (1 / 1000)
                 (compute_gradients (zero_variables 0) [[0, 0, 0, 0, 0, 0, 0]] (to_float [3]))
                 (zero_variables 0)),
        spec_eval_metric_ops = Some [''rmse'' \<mapsto> 3],
        spec_export_outputs = None\<rparr> \<and>
   (\<exists>X ls fl loss.
      [INPUT_TENSOR_NAME \<mapsto> [[0, 0, 0, 0, 0, 0, 0]]] INPUT_TENSOR_NAME = Some X \<and>
      Some [3] = Some ls \<and> length ls = length X \<and>
      tf_cast (Some [3]) DT_FLOAT = Inr fl \<and>
      root_mean_squared_error fl \<lparr>dtype = DT_FLOAT, elems = predict (zero_variables 0) X\<rparr> =
        Inr (sqrt loss) \<and>
      Some (9::real) = Some loss \<and> 0 \<le> loss \<and>
      Some [''rmse'' \<mapsto> (3::real)] = Some [''rmse'' \<mapsto> sqrt loss])"
proof -
  have h: "model_fn (zero_variables 0) [INPUT_TENSOR_NAME \<mapsto> [[0, 0, 0, 0, 0, 0, 0]]] (Some [3])
             EVAL [''learning_rate'' \<mapsto> PyFloat (1 / 1000)] =
           Inr \<lparr>spec_mode = EVAL,
                spec_predictions = None,
                spec_loss = Some 9,
                spec_train_op =
                  Some (apply_gradients (1 / 1000)
                         (compute_gradients (zero_variables 0) [[0, 0, 0, 0, 0, 0, 0]]
                            (to_float [3]))
                         (zero_variables 0)),
                spec_eval_metric_ops = Some [''rmse'' \<mapsto> 3],
                spec_export_outputs = None\<rparr>"
    using model_fn_other_shaped[of EVAL 7 "zero_variables 0" "[[0, 0, 0, 0, 0, 0, 0]]"
        "[INPUT_TENSOR_NAME \<mapsto> [[0, 0, 0, 0, 0, 0, 0]]]" "[3]"
        "[''learning_rate'' \<mapsto> PyFloat (1 / 1000)]" "1 / 1000"]
    by (simp add: zero_variables_shaped predict_zero_variables mse_example sqrt_nine)
  from eval_rmse_is_sqrt_loss[OF h] h show ?thesis
    by simp
qed

text \<open>
  Claim C3. In \<open>TRAIN\<close> and in \<open>EVAL\<close> mode, with as many labels as feature rows,
  the loss of the result is the mean over the rows of the squared difference between
  label and prediction; it is zero when the labels equal the predictions.
\<close>

theorem loss_is_mean_squared_difference:
  assumes "mode \<in> {TRAIN, EVAL}" "model_fn vs features labels mode params = Inr spec"
  shows "\<exists>X ls.
           features INPUT_TENSOR_NAME = Some X \<and> labels = Some ls \<and> length ls = length X \<and>
           network vs X = Inr \<lparr>dtype = DT_FLOAT, elems = predict vs X\<rparr> \<and>
           (X \<noteq> [] \<longrightarrow>
              spec_loss spec =
                Some ((\<Sum>i<length X. (real_of_int (ls ! i) - predict vs X ! i)\<^sup>2) /
                      real (length X))) \<and>
           (map real_of_int ls = predict vs X \<longrightarrow> spec_loss spec = Some 0)"
proof -
  from assms(1) have ne: "mode \<noteq> PREDICT" by auto
  from model_fn_other_Inr[OF ne assms(2)] obtain X ls lr where h:
    "features INPUT_TENSOR_NAME = Some X" "labels = Some ls" "length ls = length X"
    "network vs X = Inr \<lparr>dtype = DT_FLOAT, elems = predict vs X\<rparr>"
    "length (predict vs X) = length X"
    "spec = \<lparr>spec_mode = mode,
             spec_predictions = None,
             spec_loss = Some (mse (to_float ls) (predict vs X)),
             spec_train_op = Some (apply_gradients (get_learning_rate vs lr) (compute_gradients vs X (to_float ls)) vs),
             spec_eval_metric_ops = Some [''rmse'' \<mapsto> sqrt (mse (to_float ls) (predict vs X))],
             spec_export_outputs = None\<rparr>"
    by blast
  have a: "X \<noteq> [] \<Longrightarrow> mse (to_float ls) (predict vs X) =
        (\<Sum>i<length X. (real_of_int (ls ! i) - predict vs X ! i)\<^sup>2) / real (length X)"
    using h(3,5) by (simp add: mse_as_sum safe_div_def to_float_def)
  have b: "map real_of_int ls = predict vs X \<Longrightarrow> mse (to_float ls) (predict vs X) = 0"
    by (simp add: mse_as_sum safe_div_def to_float_def)
  from h a b show ?thesis
    by simp
qed

theorem loss_is_mean_squared_difference_witness:
  "TRAIN \<in> {TRAIN, EVAL} \<and>
   model_fn (zero_variables 0) [INPUT_TENSOR_NAME \<mapsto> [[0, 0, 0, 0, 0, 0, 0]]] (Some [0]) TRAIN
     [''learning_rate'' \<mapsto> PyFloat (1 / 1000)] =
   Inr \<lparr>spec_mode = TRAIN,
        spec_predictions = None,
        spec_loss = Some 0,
        spec_train_op =
          Some (apply_gradients (1 / 1000)
                 (compute_gradients (zero_variables 0) [[0, 0, 0, 0, 0, 0, 0]] (to_float [0]))
                 (zero_variables 0)),
        spec_eval_metric_ops = Some [''rmse'' \<mapsto> 0],
        spec_export_outputs = None\<rparr> \<and>
   (\<exists>X ls.
      [INPUT_TENSOR_NAME \<mapsto> [[0, 0, 0, 0, 0, 0, 0]]] INPUT_TENSOR_NAME = Some X \<and>
      Some [0] = Some ls \<and> length ls = length X \<and> X \<noteq> [] \<and>
      map real_of_int ls = predict (zero_variables 0) X \<and>
      Some (0::real) =
        Some ((\<Sum>i<length X. (real_of_int (ls ! i) - predict (zero_variables 0) X ! i)\<^sup>2) /
              real (length X)))"
proof -
  have h: "model_fn (zero_variables 0) [INPUT_TENSOR_NAME \<mapsto> [[0, 0, 0, 0, 0, 0, 0]]] (Some [0])
             TRAIN [''learning_rate'' \<mapsto> PyFloat (1 / 1000)] =
           Inr \<lparr>spec_mode = TRAIN,
                spec_predictions = None,
                spec_loss = Some 0,
                spec_train_op =
                  Some (apply_gradients (1 / 1000)
                         (compute_gradients (zero_variables 0) [[0, 0, 0, 0, 0, 0, 0]]
                            (to_float [0]))
                         (zero_variables 0)),
                spec_eval_metric_ops = Some [''rmse'' \<mapsto> 0],
                spec_export_outputs = None\<rparr>"
    using model_fn_other_shaped[of TRAIN 7 "zero_variables 0" "[[0, 0, 0, 0, 0, 0, 0]]"
        "[INPUT_TENSOR_NAME \<mapsto> [[0, 0, 0, 0, 0, 0, 0]]]" "[0]"
        "[''learning_rate'' \<mapsto> PyFloat (1 / 1000)]" "1 / 1000"]
    by (simp add: zero_variables_shaped predict_zero_variables mse_def to_float_def
        squared_difference_def safe_div_def)
  have m: "TRAIN \<in> {TRAIN, EVAL}" by simp
  from loss_is_mean_squared_difference[OF m h] h show ?thesis
    by (auto simp: predict_zero_variables)
qed

text \<open>
  Claim C4. With variables of the shapes of the abalone network and feature rows of
  seven numbers each, the network returns a prediction vector with one entry per feature
  row, and \<open>model_fn\<close> in \<open>PREDICT\<close> mode returns that vector.
\<close>

theorem prediction_vector_length:
  assumes "variables_shaped 7 vs" "features_shaped 7 X" "features INPUT_TENSOR_NAME = Some X"
  shows "\<exists>p. network vs X = Inr p \<and> length (elems p) = length X \<and>
           elems p = concat (z3 vs X) \<and> list_all (\<lambda>r. length r = 1) (z3 vs X) \<and>
           length (z3 vs X) = length X \<and>
           (\<exists>spec. model_fn vs features labels PREDICT params = Inr spec \<and>
                   spec_predictions spec = Some [''ages'' \<mapsto> p])"
proof -
  from assms(1) have b3: "length (bias3 vs) = 1"
    by (simp add: variables_shaped_def)
  have rows: "list_all (\<lambda>r. length r = 1) (z3 vs X)"
    unfolding z3_def using rows_activated[OF b3, of "\<lambda>z. z" "kernel3 vs" "h2 vs X"]
    by simp
  have len: "length (z3 vs X) = length X"
    by (simp add: z3_def h2_def z2_def h1_def z1_def)
  have "length (predict vs X) = length X"
    using b3 by (rule length_predict)
  with network_shaped[OF assms(1,2)] assms(3) rows len show ?thesis
    by (simp add: model_fn_PREDICT) (simp add: predict_def)
qed

theorem prediction_vector_length_witness:
  "variables_shaped 7 (zero_variables 0) \<and>
   features_shaped 7 [[0, 0, 0, 0, 0, 0, 0], [1, 2, 3, 4, 5, 6, 7]] \<and>
   (\<exists>p. network (zero_variables 0) [[0, 0, 0, 0, 0, 0, 0], [1, 2, 3, 4, 5, 6, 7]] = Inr p \<and>
        length (elems p) = 2)"
proof -
  have f: "features_shaped 7 [[0, 0, 0, 0, 0, 0, 0], [1, 2, 3, 4, 5, 6, 7]]"
    by (simp add: features_shaped_def)
  have l: "[INPUT_TENSOR_NAME \<mapsto> [[0, 0, 0, 0, 0, 0, 0], [1, 2, 3, 4, 5, 6, 7::real]]]
             INPUT_TENSOR_NAME = Some [[0, 0, 0, 0, 0, 0, 0], [1, 2, 3, 4, 5, 6, 7]]"
    by simp
  have v: "variables_shaped 7 (zero_variables 0)"
    by (rule zero_variables_shaped)
  from prediction_vector_length[where vs = "zero_variables 0"
      and X = "[[0, 0, 0, 0, 0, 0, 0], [1, 2, 3, 4, 5, 6, 7]]"
      and features = "[INPUT_TENSOR_NAME \<mapsto> [[0, 0, 0, 0, 0, 0, 0], [1, 2, 3, 4, 5, 6, 7]]]"
      and labels = None and params = Map.empty, OF v f l] v f
  show ?thesis
    by auto
qed

subsection \<open>Prediction writes nothing; the all-zero network\<close>

lemma network_same_weights:
  "same_weights vs2 vs \<Longrightarrow> network vs2 X = network vs X"
  by (simp add: network_def same_weights_def cong: sum.case_cong)

lemma model_fn_PREDICT_same_weights:
  "same_weights vs2 vs \<Longrightarrow>
   model_fn vs2 features labels' PREDICT params' = model_fn vs features labels PREDICT params"
  by (simp add: model_fn_PREDICT network_same_weights cong: option.case_cong)

text \<open>
  Outside \<open>PREDICT\<close> the result does hold an operation that writes: running it moves
  the global step.
\<close>

lemma non_predict_ops_write:
  assumes "mode \<noteq> PREDICT" "model_fn vs features labels mode params = Inr spec"
  shows "run_ops spec vs \<noteq> vs"
proof -
  from model_fn_other_Inr[OF assms] obtain X ls lr where h:
    "features INPUT_TENSOR_NAME = Some X" "labels = Some ls" "length ls = length X"
    "params ''learning_rate'' = Some (PyFloat lr)" "0 \<le> lr"
    "network vs X = Inr \<lparr>dtype = DT_FLOAT, elems = predict vs X\<rparr>"
    "length (predict vs X) = length X"
    "spec = \<lparr>spec_mode = mode,
             spec_predictions = None,
             spec_loss = Some (mse (to_float ls) (predict vs X)),
             spec_train_op = Some (apply_gradients (get_learning_rate vs lr)
                                    (compute_gradients vs X (to_float ls)) vs),
             spec_eval_metric_ops = Some [''rmse'' \<mapsto> sqrt (mse (to_float ls) (predict vs X))],
             spec_export_outputs = None\<rparr>"
    by blast
  have gs: "global_step (run_ops spec vs) = global_step vs + 1"
    unfolding h(8) run_ops_def apply_gradients_def by simp
  show ?thesis
  proof
    assume a: "run_ops spec vs = vs"
    have "global_step (run_ops spec vs) = global_step vs"
      by (simp only: a)
    with gs have "global_step vs + 1 = global_step vs"
      by (simp only:)
    then show False
      by simp
  qed
qed

text \<open>
  Claim C6. A result of \<open>model_fn\<close> in \<open>PREDICT\<close> mode holds no operation that
  writes to the variables: after everything in it has run, the three kernels, the three
  biases, the global step and the stored learning rate are what they were. A second
  invocation on the variables so left, with the same features and whatever labels and
  hyperparameters, returns the same result and so the same prediction vector; the same
  holds from any state with the same kernels and biases, whatever its global step.
\<close>

theorem predict_is_pure:
  assumes "model_fn vs features labels PREDICT params = Inr spec"
  shows "spec_train_op spec = None \<and> run_ops spec vs = vs \<and>
         model_fn (run_ops spec vs) features labels' PREDICT params' = Inr spec \<and>
         (same_weights vs2 vs \<longrightarrow>
            model_fn vs2 features labels' PREDICT params' = Inr spec \<and>
            run_ops spec vs2 = vs2) \<and>
         (\<exists>X. features INPUT_TENSOR_NAME = Some X \<and>
              spec_predictions spec =
                Some [''ages'' \<mapsto> \<lparr>dtype = DT_FLOAT, elems = predict vs X\<rparr>])"
proof -
  from assms obtain X where X: "features INPUT_TENSOR_NAME = Some X"
    by (auto simp: model_fn_PREDICT split: option.splits)
  with assms obtain p where p: "network vs X = Inr p"
    by (auto simp: model_fn_PREDICT split: sum.splits)
  from assms X p have t: "spec_train_op spec = None"
    by (auto simp: model_fn_PREDICT)
  then have r: "run_ops spec w = w" for w
    by (simp add: run_ops_def)
  have again: "model_fn vs features labels' PREDICT params' = Inr spec"
    using assms by (simp add: model_fn_PREDICT)
  have other: "model_fn vs2 features labels' PREDICT params' = Inr spec"
    if "same_weights vs2 vs"
    using model_fn_PREDICT_same_weights[OF that, of features labels' params' labels params]
      assms by simp
  from assms X p network_Inr(1)[OF p] have
    "spec_predictions spec = Some [''ages'' \<mapsto> \<lparr>dtype = DT_FLOAT, elems = predict vs X\<rparr>]"
    by (auto simp: model_fn_PREDICT)
  with X t r again other show ?thesis
    by simp
qed

theorem predict_is_pure_witness:
  "model_fn (zero_variables 5) [INPUT_TENSOR_NAME \<mapsto> [[0, 0, 0, 0, 0, 0, 0]]] None PREDICT
     Map.empty =
   Inr \<lparr>spec_mode = PREDICT,
        spec_predictions = Some [''ages'' \<mapsto> \<lparr>dtype = DT_FLOAT, elems = [0]\<rparr>],
        spec_loss = None,
        spec_train_op = None,
        spec_eval_metric_ops = None,
        spec_export_outputs =
          Some [SIGNATURE_NAME \<mapsto> PredictOutput [''ages'' \<mapsto> \<lparr>dtype = DT_FLOAT, elems = [0]\<rparr>]]\<rparr> \<and>
   same_weights (zero_variables 9) (zero_variables 5) \<and>
   model_fn (zero_variables 9) [INPUT_TENSOR_NAME \<mapsto> [[0, 0, 0, 0, 0, 0, 0]]] (Some [3]) PREDICT
     [''learning_rate'' \<mapsto> PyFloat (1 / 1000)] =
   Inr \<lparr>spec_mode = PREDICT,
        spec_predictions = Some [''ages'' \<mapsto> \<lparr>dtype = DT_FLOAT, elems = [0]\<rparr>],
        spec_loss = None,
        spec_train_op = None,
        spec_eval_metric_ops = None,
        spec_export_outputs =
          Some [SIGNATURE_NAME \<mapsto> PredictOutput [''ages'' \<mapsto> \<lparr>dtype = DT_FLOAT, elems = [0]\<rparr>]]\<rparr> \<and>
   run_ops
     \<lparr>spec_mode = PREDICT,
      spec_predictions = Some [''ages'' \<mapsto> \<lparr>dtype = DT_FLOAT, elems = [0]\<rparr>],
      spec_loss = None,
      spec_train_op = None,
      spec_eval_metric_ops = None,
      spec_export_outputs =
        Some [SIGNATURE_NAME \<mapsto> PredictOutput [''ages'' \<mapsto> \<lparr>dtype = DT_FLOAT, elems = [0]\<rparr>]]\<rparr>
     (zero_variables 5) = zero_variables 5"
proof -
  have h: "model_fn (zero_variables 5) [INPUT_TENSOR_NAME \<mapsto> [[0, 0, 0, 0, 0, 0, 0]]] None
             PREDICT Map.empty =
           Inr \<lparr>spec_mode = PREDICT,
                spec_predictions = Some [''ages'' \<mapsto> \<lparr>dtype = DT_FLOAT, elems = [0]\<rparr>],
                spec_loss = None,
                spec_train_op = None,
                spec_eval_metric_ops = None,
                spec_export_outputs =
                  Some [SIGNATURE_NAME \<mapsto>
                          PredictOutput [''ages'' \<mapsto> \<lparr>dtype = DT_FLOAT, elems = [0]\<rparr>]]\<rparr>"
    by (simp add: model_fn_PREDICT network_zero_variables)
  have w: "same_weights (zero_variables 9) (zero_variables 5)"
    by (simp add: same_weights_def zero_variables_def)
  note t = predict_is_pure[OF h, of "Some [3]" "[''learning_rate'' \<mapsto> PyFloat (1 / 1000)]"
      "zero_variables 9"]
  from t have r: "run_ops
     \<lparr>spec_mode = PREDICT,
      spec_predictions = Some [''ages'' \<mapsto> \<lparr>dtype = DT_FLOAT, elems = [0]\<rparr>],
      spec_loss = None,
      spec_train_op = None,
      spec_eval_metric_ops = None,
      spec_export_outputs =
        Some [SIGNATURE_NAME \<mapsto> PredictOutput [''ages'' \<mapsto> \<lparr>dtype = DT_FLOAT, elems = [0]\<rparr>]]\<rparr>
     (zero_variables 5) = zero_variables 5"
    by (rule conjunct1[OF conjunct2])
  from t have "same_weights (zero_variables 9) (zero_variables 5) \<longrightarrow>
      model_fn (zero_variables 9) [INPUT_TENSOR_NAME \<mapsto> [[0, 0, 0, 0, 0, 0, 0]]] (Some [3])
        PREDICT [''learning_rate'' \<mapsto> PyFloat (1 / 1000)] =
      Inr \<lparr>spec_mode = PREDICT,
           spec_predictions = Some [''ages'' \<mapsto> \<lparr>dtype = DT_FLOAT, elems = [0]\<rparr>],
           spec_loss = None,
           spec_train_op = None,
           spec_eval_metric_ops = None,
           spec_export_outputs =
             Some [SIGNATURE_NAME \<mapsto>
                     PredictOutput [''ages'' \<mapsto> \<lparr>dtype = DT_FLOAT, elems = [0]\<rparr>]]\<rparr> \<and>
      run_ops
        \<lparr>spec_mode = PREDICT,
         spec_predictions = Some [''ages'' \<mapsto> \<lparr>dtype = DT_FLOAT, elems = [0]\<rparr>],
         spec_loss = None,
         spec_train_op = None,
         spec_eval_metric_ops = None,
         spec_export_outputs =
           Some [SIGNATURE_NAME \<mapsto>
                   PredictOutput [''ages'' \<mapsto> \<lparr>dtype = DT_FLOAT, elems = [0]\<rparr>]]\<rparr>
        (zero_variables 9) = zero_variables 9"
    by (rule conjunct1[OF conjunct2[OF conjunct2[OF conjunct2]]])
  with w have d: "model_fn (zero_variables 9) [INPUT_TENSOR_NAME \<mapsto> [[0, 0, 0, 0, 0, 0, 0]]]
        (Some [3]) PREDICT [''learning_rate'' \<mapsto> PyFloat (1 / 1000)] =
      Inr \<lparr>spec_mode = PREDICT,
           spec_predictions = Some [''ages'' \<mapsto> \<lparr>dtype = DT_FLOAT, elems = [0]\<rparr>],
           spec_loss = None,
           spec_train_op = None,
           spec_eval_metric_ops = None,
           spec_export_outputs =
             Some [SIGNATURE_NAME \<mapsto>
                     PredictOutput [''ages'' \<mapsto> \<lparr>dtype = DT_FLOAT, elems = [0]\<rparr>]]\<rparr>"
    by (elim impE conjE) assumption
  show ?thesis
    by (intro conjI) (rule h w d r)+
qed

text \<open>
  Claim C9. With every weight and every bias zero, the single feature row of seven zeros
  is mapped to the prediction \<open>0\<close>: the network returns the vector \<open>[0]\<close>, every
  value of the two rectified hidden layers and of the linear output layer being zero, and
  \<open>model_fn\<close> in \<open>PREDICT\<close> mode returns that vector under the key \<open>ages\<close>.
\<close>

theorem zero_state_predicts_zero:
  "network (zero_variables step) [[0, 0, 0, 0, 0, 0, 0]] =
     Inr \<lparr>dtype = DT_FLOAT, elems = [0]\<rparr> \<and>
   h1 (zero_variables step) [[0, 0, 0, 0, 0, 0, 0]] = [replicate 10 0] \<and>
   h2 (zero_variables step) [[0, 0, 0, 0, 0, 0, 0]] = [replicate 10 0] \<and>
   z3 (zero_variables step) [[0, 0, 0, 0, 0, 0, 0]] = [[0]] \<and>
   map_sum id spec_predictions
     (model_fn (zero_variables step) [INPUT_TENSOR_NAME \<mapsto> [[0, 0, 0, 0, 0, 0, 0]]] labels
        PREDICT params) =
     Inr (Some [''ages'' \<mapsto> \<lparr>dtype = DT_FLOAT, elems = [0]\<rparr>])"
proof -
  let ?X = "[[0, 0, 0, 0, 0, 0, 0::real]]"
  have a: "z1 (zero_variables step) ?X = replicate (length ?X) (replicate 10 0)"
    unfolding z1_def by (rule pre_activation_zero) (simp_all add: zero_variables_def)
  then have a': "h1 (zero_variables step) ?X = [replicate 10 0]"
    by (simp add: h1_def)
  have "z2 (zero_variables step) ?X =
        replicate (length (h1 (zero_variables step) ?X)) (replicate 10 0)"
    unfolding z2_def by (rule pre_activation_zero) (simp_all add: zero_variables_def)
  then have b': "h2 (zero_variables step) ?X = [replicate 10 0]"
    by (simp add: h2_def a')
  have "z3 (zero_variables step) ?X =
        replicate (length (h2 (zero_variables step) ?X)) (replicate 1 0)"
    unfolding z3_def by (rule pre_activation_zero) (simp_all add: zero_variables_def)
  then have c': "z3 (zero_variables step) ?X = [[0]]"
    by (simp add: b')
  show ?thesis
    by (simp add: a' b' c' model_fn_PREDICT network_zero_variables)
qed

subsection \<open>The result outside prediction\<close>

text \<open>
  Claim C10. In every mode other than \<open>PREDICT\<close> a result of \<open>model_fn\<close> is one
  record that holds the loss, the training operation and the metric mapping with the key
  \<open>rmse\<close>, and nothing in it but the tag depends on the mode: \<open>EVAL\<close> also builds
  the training operation and \<open>TRAIN\<close> also carries the metric. The metric is computed
  from the labels cast to 32-bit floats, the element type of the predictions; a cast to
  64-bit floats would not pass the metric's type check.
\<close>

theorem non_predict_result:
  assumes "mode \<noteq> PREDICT" "model_fn vs features labels mode params = Inr spec"
  shows "\<exists>X ls lr fl rmse.
           features INPUT_TENSOR_NAME = Some X \<and> labels = Some ls \<and>
           params ''learning_rate'' = Some (PyFloat lr) \<and>
           tf_cast labels DT_FLOAT = Inr fl \<and> dtype fl = DT_FLOAT \<and>
           elems fl = map real_of_int ls \<and>
           root_mean_squared_error fl \<lparr>dtype = DT_FLOAT, elems = predict vs X\<rparr> = Inr rmse \<and>
           root_mean_squared_error (fl\<lparr>dtype := DT_DOUBLE\<rparr>)
             \<lparr>dtype = DT_FLOAT, elems = predict vs X\<rparr> = Inl DTypeMismatch \<and>
           spec = \<lparr>spec_mode = mode,
                   spec_predictions = None,
                   spec_loss = Some (mse (to_float ls) (predict vs X)),
                   spec_train_op =
                     Some (apply_gradients (get_learning_rate vs lr)
                            (compute_gradients vs X (to_float ls)) vs),
                   spec_eval_metric_ops = Some [''rmse'' \<mapsto> rmse],
                   spec_export_outputs = None\<rparr> \<and>
           model_fn vs features labels TRAIN params = Inr (spec\<lparr>spec_mode := TRAIN\<rparr>) \<and>
           model_fn vs features labels EVAL params = Inr (spec\<lparr>spec_mode := EVAL\<rparr>)"
proof -
  from model_fn_other_Inr[OF assms] obtain X ls lr where h:
    "features INPUT_TENSOR_NAME = Some X" "labels = Some ls" "length ls = length X"
    "params ''learning_rate'' = Some (PyFloat lr)" "0 \<le> lr"
    "network vs X = Inr \<lparr>dtype = DT_FLOAT, elems = predict vs X\<rparr>"
    "length (predict vs X) = length X"
    "spec = \<lparr>spec_mode = mode,
             spec_predictions = None,
             spec_loss = Some (mse (to_float ls) (predict vs X)),
             spec_train_op = Some (apply_gradients (get_learning_rate vs lr) (compute_gradients vs X (to_float ls)) vs),
             spec_eval_metric_ops = Some [''rmse'' \<mapsto> sqrt (mse (to_float ls) (predict vs X))],
             spec_export_outputs = None\<rparr>"
    by blast
  from h(3,7) have len: "length ls = length (predict vs X)" by simp
  have t: "model_fn vs features labels TRAIN params = Inr (spec\<lparr>spec_mode := TRAIN\<rparr>)"
    using h by (simp add: model_fn_other)
  have e: "model_fn vs features labels EVAL params = Inr (spec\<lparr>spec_mode := EVAL\<rparr>)"
    using h by (simp add: model_fn_other)
  from h t e rmse_of_cast_labels[OF len] rmse_of_double_labels[OF len] show ?thesis
    by (simp add: tf_cast_def)
qed

theorem non_predict_result_witness:
  "EVAL \<noteq> PREDICT \<and>
   model_fn (zero_variables 0) [INPUT_TENSOR_NAME \<mapsto> [[0, 0, 0, 0, 0, 0, 0]]] (Some [3]) EVAL
     [''learning_rate'' \<mapsto> PyFloat (1 / 1000)] =
   Inr \<lparr>spec_mode = EVAL,
        spec_predictions = None,
        spec_loss = Some 9,
        spec_train_op =
          Some (apply_gradients (1 / 1000)
                 (compute_gradients (zero_variables 0) [[0, 0, 0, 0, 0, 0, 0]] (to_float [3]))
                 (zero_variables 0)),
        spec_eval_metric_ops = Some [''rmse'' \<mapsto> 3],
        spec_export_outputs = None\<rparr> \<and>
   model_fn (zero_variables 0) [INPUT_TENSOR_NAME \<mapsto> [[0, 0, 0, 0, 0, 0, 0]]] (Some [3]) TRAIN
     [''learning_rate'' \<mapsto> PyFloat (1 / 1000)] =
   Inr \<lparr>spec_mode = TRAIN,
        spec_predictions = None,
        spec_loss = Some 9,
        spec_train_op =
          Some (apply_gradients (1 / 1000)
                 (compute_gradients (zero_variables 0) [[0, 0, 0, 0, 0, 0, 0]] (to_float [3]))
                 (zero_variables 0)),
        spec_eval_metric_ops = Some [''rmse'' \<mapsto> 3],
        spec_export_outputs = None\<rparr>"
proof -
  have ne: "EVAL \<noteq> PREDICT" by simp
  have h: "model_fn (zero_variables 0) [INPUT_TENSOR_NAME \<mapsto> [[0, 0, 0, 0, 0, 0, 0]]] (Some [3])
             EVAL [''learning_rate'' \<mapsto> PyFloat (1 / 1000)] =
           Inr \<lparr>spec_mode = EVAL,
                spec_predictions = None,
                spec_loss = Some 9,
                spec_train_op =
                  Some (apply_gradients (1 / 1000)
                         (compute_gradients (zero_variables 0) [[0, 0, 0, 0, 0, 0, 0]]
                            (to_float [3]))
                         (zero_variables 0)),
                spec_eval_metric_ops = Some [''rmse'' \<mapsto> 3],
                spec_export_outputs = None\<rparr>"
    using model_fn_other_shaped[of EVAL 7 "zero_variables 0" "[[0, 0, 0, 0, 0, 0, 0]]"
        "[INPUT_TENSOR_NAME \<mapsto> [[0, 0, 0, 0, 0, 0, 0]]]" "[3]"
        "[''learning_rate'' \<mapsto> PyFloat (1 / 1000)]" "1 / 1000"]
    by (simp add: zero_variables_shaped predict_zero_variables mse_example sqrt_nine)
  from non_predict_result[OF ne h] h ne show ?thesis
    by (elim exE conjE) simp
qed

subsection \<open>Violations of the input contract\<close>

lemma bogus_mode [simp]:
  "''bogus'' \<noteq> TRAIN" "''bogus'' \<noteq> EVAL" "''bogus'' \<noteq> PREDICT"
  by (simp_all add: TRAIN_def EVAL_def PREDICT_def)

lemma zero_variables_of_width_shaped: "variables_shaped d (zero_variables_of_width d)"
  by (simp add: variables_shaped_def zero_variables_of_width_def list_all_iff)

text \<open>
  Claim C5, as the specification states it, asks that a mode outside \<open>TRAIN\<close>,
  \<open>EVAL\<close>, \<open>PREDICT\<close> makes the model function fail. The script compares the mode
  with \<open>PREDICT\<close> only: the mode \<open>bogus\<close> is served like \<open>TRAIN\<close> and \<open>EVAL\<close> and
  comes back as the tag of the result.
\<close>

theorem unknown_mode_counterexample:
  "''bogus'' \<notin> {TRAIN, EVAL, PREDICT} \<and>
   \<not> isl (model_fn (zero_variables 0) [INPUT_TENSOR_NAME \<mapsto> [[0, 0, 0, 0, 0, 0, 0]]] (Some [3])
            ''bogus'' [''learning_rate'' \<mapsto> PyFloat (1 / 1000)]) \<and>
   map_sum id spec_mode
     (model_fn (zero_variables 0) [INPUT_TENSOR_NAME \<mapsto> [[0, 0, 0, 0, 0, 0, 0]]] (Some [3])
        ''bogus'' [''learning_rate'' \<mapsto> PyFloat (1 / 1000)]) = Inr ''bogus''"
  using model_fn_other_shaped[of "''bogus''" 7 "zero_variables 0" "[[0, 0, 0, 0, 0, 0, 0]]"
      "[INPUT_TENSOR_NAME \<mapsto> [[0, 0, 0, 0, 0, 0, 0]]]" "[3]"
      "[''learning_rate'' \<mapsto> PyFloat (1 / 1000)]" "1 / 1000"]
  by (simp add: zero_variables_shaped)

text \<open>
  Claim C5, amended. The model function validates neither the mode nor the width of the
  feature rows: the layers take their shapes from the rows they are given. With feature
  rows of any one width \<open>d\<close> and the variables of the layers for that width,
  \<open>PREDICT\<close> returns a result, and in every other mode, inside the enumeration or not,
  missing labels fail with the error for \<open>None\<close>, labels of another row count than the
  features fail with the shape error, and as many labels as rows (with a float learning
  rate that is not negative) give a result tagged with the mode that was passed.
\<close>

theorem input_contract_violations:
  assumes "variables_shaped d vs" "features_shaped d X" "features INPUT_TENSOR_NAME = Some X"
    "mode \<noteq> PREDICT"
  shows "(\<exists>spec. model_fn vs features labels PREDICT params = Inr spec \<and>
                 spec_mode spec = PREDICT) \<and>
         model_fn vs features None mode params = Inl NoneValue \<and>
         (length ls \<noteq> length X \<longrightarrow>
            model_fn vs features (Some ls) mode params = Inl ShapeError) \<and>
         (length ls' = length X \<and> params ''learning_rate'' = Some (PyFloat lr) \<and> 0 \<le> lr \<longrightarrow>
            (\<exists>spec. model_fn vs features (Some ls') mode params = Inr spec \<and>
                    spec_mode spec = mode))"
proof -
  note n = network_shaped[OF assms(1,2)]
  have a: "\<exists>spec. model_fn vs features labels PREDICT params = Inr spec \<and>
                 spec_mode spec = PREDICT"
    using assms(3) n by (simp add: model_fn_PREDICT)
  have b: "model_fn vs features None mode params = Inl NoneValue"
    using assms(3,4) n by (simp add: model_fn_other)
  have c: "model_fn vs features (Some ls) mode params = Inl ShapeError"
    if "length ls \<noteq> length X"
    using that assms(3,4) n by (simp add: model_fn_other)
  have e: "\<exists>spec. model_fn vs features (Some ls') mode params = Inr spec \<and>
                  spec_mode spec = mode"
    if "length ls' = length X \<and> params ''learning_rate'' = Some (PyFloat lr) \<and> 0 \<le> lr"
    using model_fn_other_shaped[of mode d vs X features ls' params lr] that assms by simp
  from a b c e show ?thesis
    by (intro conjI impI)
qed

theorem input_contract_violations_witness:
  "variables_shaped 6 (zero_variables_of_width 6) \<and>
   features_shaped 6 [[0, 0, 0, 0, 0, 0]] \<and> ''bogus'' \<noteq> PREDICT \<and>
   (\<exists>spec. model_fn (zero_variables_of_width 6) [INPUT_TENSOR_NAME \<mapsto> [[0, 0, 0, 0, 0, 0]]]
             None PREDICT Map.empty = Inr spec \<and> spec_mode spec = PREDICT) \<and>
   model_fn (zero_variables_of_width 6) [INPUT_TENSOR_NAME \<mapsto> [[0, 0, 0, 0, 0, 0]]] None
     ''bogus'' [''learning_rate'' \<mapsto> PyFloat (1 / 1000)] = Inl NoneValue \<and>
   length [3, 4 :: int] \<noteq> length [[0, 0, 0, 0, 0, 0 :: real]] \<and>
   model_fn (zero_variables_of_width 6) [INPUT_TENSOR_NAME \<mapsto> [[0, 0, 0, 0, 0, 0]]]
     (Some [3, 4]) ''bogus'' [''learning_rate'' \<mapsto> PyFloat (1 / 1000)] = Inl ShapeError \<and>
   length [3 :: int] = length [[0, 0, 0, 0, 0, 0 :: real]] \<and>
   (\<exists>spec. model_fn (zero_variables_of_width 6) [INPUT_TENSOR_NAME \<mapsto> [[0, 0, 0, 0, 0, 0]]]
             (Some [3]) ''bogus'' [''learning_rate'' \<mapsto> PyFloat (1 / 1000)] = Inr spec \<and>
           spec_mode spec = ''bogus'')"
proof -
  have v: "variables_shaped 6 (zero_variables_of_width 6)"
    by (rule zero_variables_of_width_shaped)
  have f: "features_shaped 6 [[0, 0, 0, 0, 0, 0]]"
    by (simp add: features_shaped_def)
  have l: "[INPUT_TENSOR_NAME \<mapsto> [[0, 0, 0, 0, 0, 0 :: real]]] INPUT_TENSOR_NAME =
             Some [[0, 0, 0, 0, 0, 0]]"
    by simp
  have m: "''bogus'' \<noteq> PREDICT"
    by simp
  note t = input_contract_violations[where d = 6 and vs = "zero_variables_of_width 6"
      and X = "[[0, 0, 0, 0, 0, 0]]"
      and features = "[INPUT_TENSOR_NAME \<mapsto> [[0, 0, 0, 0, 0, 0]]]"
      and mode = "''bogus''" and params = "[''learning_rate'' \<mapsto> PyFloat (1 / 1000)]"
      and ls = "[3, 4]" and ls' = "[3]" and lr = "1 / 1000" and labels = None, OF v f l m]
  have p: "\<exists>spec. model_fn (zero_variables_of_width 6)
             [INPUT_TENSOR_NAME \<mapsto> [[0, 0, 0, 0, 0, 0]]] None PREDICT Map.empty = Inr spec \<and>
           spec_mode spec = PREDICT"
    using input_contract_violations[where d = 6 and vs = "zero_variables_of_width 6"
      and X = "[[0, 0, 0, 0, 0, 0]]"
      and features = "[INPUT_TENSOR_NAME \<mapsto> [[0, 0, 0, 0, 0, 0]]]"
      and mode = "''bogus''" and params = Map.empty and labels = None, OF v f l m]
    by (rule conjunct1)
  from t v f m p show ?thesis
    by simp
qed

subsection \<open>Derivatives of one layer, and the adjoint identity of a layer\<close>

lemma relu_DERIV:
  assumes "DERIV f 0 :> f'" "f 0 \<noteq> 0"
  shows "DERIV (\<lambda>t. relu (f t)) 0 :> (if 0 < f 0 then f' else 0)"
proof (cases "0 < f 0")
  case True
  have "isCont f 0" using assms(1) by (rule DERIV_isCont)
  then have "\<forall>\<^sub>F t in at 0. 0 < f t"
    using True by (metis isCont_def order_tendstoD(1))
  then have "\<forall>\<^sub>F t in nhds 0. 0 < f t"
    using True by (simp add: eventually_nhds_conv_at)
  then have ev: "\<forall>\<^sub>F t in nhds 0. relu (f t) = f t"
    by (rule eventually_mono) (simp add: relu_def)
  have "DERIV (\<lambda>t. relu (f t)) 0 :> f' \<longleftrightarrow> DERIV f 0 :> f'"
    by (rule DERIV_cong_ev[OF refl ev refl])
  with assms True show ?thesis by simp
next
  case False
  with assms have neg: "f 0 < 0" by simp
  have "isCont f 0" using assms(1) by (rule DERIV_isCont)
  then have "\<forall>\<^sub>F t in at 0. f t < 0"
    using neg by (metis isCont_def order_tendstoD(2))
  then have "\<forall>\<^sub>F t in nhds 0. f t < 0"
    using neg by (simp add: eventually_nhds_conv_at)
  then have ev: "\<forall>\<^sub>F t in nhds 0. relu (f t) = (\<lambda>t. 0) t"
    by (rule eventually_mono) (simp add: relu_def)
  have "DERIV (\<lambda>t. relu (f t)) 0 :> 0 \<longleftrightarrow> DERIV (\<lambda>t. 0::real) 0 :> 0"
    by (rule DERIV_cong_ev[OF refl ev refl])
  with False show ?thesis by simp
qed

lemma dense_DERIV:
  fixes A :: "real \<Rightarrow> nat \<Rightarrow> real"
  assumes "\<And>k. k < d \<Longrightarrow> DERIV (\<lambda>t. A t k) 0 :> A' k"
  shows "DERIV (\<lambda>t. (\<Sum>k<d. A t k * (K k - t * G k)) + (b - t * gb)) 0 :>
           (\<Sum>k<d. A' k * K k - A 0 k * G k) - gb"
  by (auto intro!: derivative_eq_intros assms sum.cong simp: algebra_simps sum_subtractf)

lemma layer_adjoint:
  fixes \<delta> :: "nat \<Rightarrow> nat \<Rightarrow> real"
  shows "(\<Sum>i<n. \<Sum>j<u. \<delta> i j * ((\<Sum>k<d. A' i k * K k j - A i k * G k j) - gb j)) =
         (\<Sum>i<n. \<Sum>k<d. (\<Sum>j<u. \<delta> i j * K k j) * A' i k)
         - (\<Sum>k<d. \<Sum>j<u. (\<Sum>i<n. A i k * \<delta> i j) * G k j)
         - (\<Sum>j<u. (\<Sum>i<n. \<delta> i j) * gb j)"
proof -
  have 1: "(\<Sum>i<n. \<Sum>j<u. \<delta> i j * (\<Sum>k<d. A' i k * K k j)) =
           (\<Sum>i<n. \<Sum>k<d. (\<Sum>j<u. \<delta> i j * K k j) * A' i k)"
  proof -
    have "(\<Sum>i<n. \<Sum>j<u. \<delta> i j * (\<Sum>k<d. A' i k * K k j)) =
          (\<Sum>i<n. \<Sum>j<u. \<Sum>k<d. \<delta> i j * K k j * A' i k)"
      by (simp add: sum_distrib_left mult_ac)
    also have "\<dots> = (\<Sum>i<n. \<Sum>k<d. \<Sum>j<u. \<delta> i j * K k j * A' i k)"
      by (intro sum.cong refl sum.swap)
    finally show ?thesis
      by (simp add: sum_distrib_right)
  qed
  have 2: "(\<Sum>i<n. \<Sum>j<u. \<delta> i j * (\<Sum>k<d. A i k * G k j)) =
           (\<Sum>k<d. \<Sum>j<u. (\<Sum>i<n. A i k * \<delta> i j) * G k j)"
  proof -
    have "(\<Sum>i<n. \<Sum>j<u. \<delta> i j * (\<Sum>k<d. A i k * G k j)) =
          (\<Sum>i<n. \<Sum>j<u. \<Sum>k<d. A i k * \<delta> i j * G k j)"
      by (simp add: sum_distrib_left mult_ac)
    also have "\<dots> = (\<Sum>i<n. \<Sum>k<d. \<Sum>j<u. A i k * \<delta> i j * G k j)"
      by (subst sum.swap) simp
    also have "\<dots> = (\<Sum>k<d. \<Sum>i<n. \<Sum>j<u. A i k * \<delta> i j * G k j)"
      by (subst sum.swap) simp
    also have "\<dots> = (\<Sum>k<d. \<Sum>j<u. \<Sum>i<n. A i k * \<delta> i j * G k j)"
      by (subst (2) sum.swap) simp
    finally show ?thesis
      by (simp add: sum_distrib_right)
  qed
  have 3: "(\<Sum>i<n. \<Sum>j<u. \<delta> i j * gb j) = (\<Sum>j<u. (\<Sum>i<n. \<delta> i j) * gb j)"
    by (subst sum.swap) (simp add: sum_distrib_right)
  have "(\<Sum>i<n. \<Sum>j<u. \<delta> i j * ((\<Sum>k<d. A' i k * K k j - A i k * G k j) - gb j)) =
        (\<Sum>i<n. \<Sum>j<u. \<delta> i j * (\<Sum>k<d. A' i k * K k j))
        - (\<Sum>i<n. \<Sum>j<u. \<delta> i j * (\<Sum>k<d. A i k * G k j))
        - (\<Sum>i<n. \<Sum>j<u. \<delta> i j * gb j)"
    by (simp add: sum_subtractf right_diff_distrib)
  then show ?thesis
    by (simp only: 1 2 3)
qed

lemma mean_square_DERIV:
  fixes P :: "real \<Rightarrow> nat \<Rightarrow> real"
  assumes "\<And>i. i < n \<Longrightarrow> DERIV (\<lambda>t. P t i) 0 :> P' i"
  shows "DERIV (\<lambda>t. (\<Sum>i<n. (y i - P t i)\<^sup>2) / real n) 0 :>
           (\<Sum>i<n. 2 * (P 0 i - y i) / real n * P' i)"
  by (auto intro!: derivative_eq_intros assms sum.cong
      simp: algebra_simps sum_subtractf sum_divide_distrib sum_distrib_left diff_divide_distrib)

subsection \<open>Entries of the variables after a step, of the network values and of the gradients\<close>

lemma sum_list_upt: "sum_list (map f [0..<n]) = (\<Sum>i<n. f i)"
  by (simp add: interv_sum_list_conv_sum_set_nat atLeast0LessThan)

lemma length_descend_vec [simp]: "length (descend_vec lr w g) = length w"
  by (simp add: descend_vec_def)

lemma descend_vec_nth: "j < length w \<Longrightarrow> descend_vec lr w g ! j = w ! j - lr * g ! j"
  by (simp add: descend_vec_def)

lemma length_descend_mat [simp]: "length (descend_mat lr K G) = length K"
  by (simp add: descend_mat_def)

lemma descend_mat_row_length:
  "k < length K \<Longrightarrow> length (descend_mat lr K G ! k) = length (K ! k)"
  by (simp add: descend_mat_def)

lemma descend_mat_nth:
  "k < length K \<Longrightarrow> j < length (K ! k) \<Longrightarrow>
   descend_mat lr K G ! k ! j = K ! k ! j - lr * G ! k ! j"
  by (simp add: descend_mat_def descend_vec_nth)

lemma descend_vec_zero [simp]: "descend_vec 0 w g = w"
  by (rule nth_equalityI) (simp_all add: descend_vec_nth)

lemma descend_mat_zero [simp]: "descend_mat 0 K G = K"
  by (rule nth_equalityI) (simp_all add: descend_mat_def)

lemma descend_mat_rows:
  "list_all (\<lambda>kr. length kr = u) (descend_mat lr K G) = list_all (\<lambda>kr. length kr = u) K"
  by (simp add: list_all_length descend_mat_row_length)

lemma apply_gradients_sel [simp]:
  "kernel1 (apply_gradients lr g vs) = descend_mat lr (kernel1 vs) (d_kernel1 g)"
  "bias1 (apply_gradients lr g vs) = descend_vec lr (bias1 vs) (d_bias1 g)"
  "kernel2 (apply_gradients lr g vs) = descend_mat lr (kernel2 vs) (d_kernel2 g)"
  "bias2 (apply_gradients lr g vs) = descend_vec lr (bias2 vs) (d_bias2 g)"
  "kernel3 (apply_gradients lr g vs) = descend_mat lr (kernel3 vs) (d_kernel3 g)"
  "bias3 (apply_gradients lr g vs) = descend_vec lr (bias3 vs) (d_bias3 g)"
  "global_step (apply_gradients lr g vs) = global_step vs + 1"
  "optimizer_learning_rate (apply_gradients lr g vs) = Some lr"
  by (simp_all add: apply_gradients_def)

lemma apply_gradients_shaped [simp]:
  "variables_shaped d (apply_gradients lr g vs) = variables_shaped d vs"
  by (simp add: variables_shaped_def descend_mat_rows)

lemma predict_apply_gradients_zero [simp]:
  "predict (apply_gradients 0 g vs) X = predict vs X"
  by (simp add: predict_def z3_def h2_def z2_def h1_def z1_def)

text \<open>Entries of the values inside the network.\<close>

lemma length_layers [simp]:
  "length (z1 vs X) = length X" "length (h1 vs X) = length X"
  "length (z2 vs X) = length X" "length (h2 vs X) = length X"
  "length (z3 vs X) = length X"
  by (simp_all add: z1_def h1_def z2_def h2_def z3_def)

lemma z1_nth:
  assumes "variables_shaped d vs" "i < length X" "j < 10"
  shows "z1 vs X ! i ! j = (\<Sum>k<d. X ! i ! k * kernel1 vs ! k ! j) + bias1 vs ! j"
  using assms by (simp add: z1_def pre_activation_nth variables_shaped_def)

lemma h1_nth:
  assumes "variables_shaped d vs" "i < length X" "j < 10"
  shows "h1 vs X ! i ! j = relu (z1 vs X ! i ! j)"
  using assms pre_activation_row_length[of i X 10 "kernel1 vs" "bias1 vs"]
  by (simp add: h1_def z1_def variables_shaped_def)

lemma z2_nth:
  assumes "variables_shaped d vs" "i < length X" "j < 10"
  shows "z2 vs X ! i ! j = (\<Sum>k<10. h1 vs X ! i ! k * kernel2 vs ! k ! j) + bias2 vs ! j"
  using assms pre_activation_nth[of i "h1 vs X" j 10 "bias2 vs" "kernel2 vs"]
  by (simp add: z2_def variables_shaped_def)

lemma h2_nth:
  assumes "variables_shaped d vs" "i < length X" "j < 10"
  shows "h2 vs X ! i ! j = relu (z2 vs X ! i ! j)"
  using assms pre_activation_row_length[of i "h1 vs X" 10 "kernel2 vs" "bias2 vs"]
  by (simp add: h2_def z2_def variables_shaped_def)

lemma z3_nth:
  assumes "variables_shaped d vs" "i < length X"
  shows "z3 vs X ! i ! 0 = (\<Sum>k<10. h2 vs X ! i ! k * kernel3 vs ! k ! 0) + bias3 vs ! 0"
  using assms pre_activation_nth[of i "h2 vs X" 0 1 "bias3 vs" "kernel3 vs"]
  by (simp add: z3_def variables_shaped_def)

lemma concat_singletons_nth:
  "list_all (\<lambda>r. length r = 1) Y \<Longrightarrow> i < length Y \<Longrightarrow> concat Y ! i = Y ! i ! 0"
proof (induction Y arbitrary: i)
  case Nil
  then show ?case by simp
next
  case (Cons r Y)
  then obtain x where r: "r = [x]"
    by (cases r) auto
  with Cons show ?case
    by (cases i) auto
qed

lemma predict_nth:
  assumes "variables_shaped d vs" "i < length X"
  shows "predict vs X ! i = z3 vs X ! i ! 0"
proof -
  from assms(1) have "length (bias3 vs) = 1" by (simp add: variables_shaped_def)
  then have "list_all (\<lambda>r. length r = 1) (z3 vs X)"
    unfolding z3_def using rows_activated[of "bias3 vs" 1 "\<lambda>z. z" "kernel3 vs" "h2 vs X"]
    by simp
  with assms(2) show ?thesis
    by (simp add: predict_def concat_singletons_nth)
qed

text \<open>Entries of the gradients.\<close>

lemma mse_grad_nth:
  "i < length ps \<Longrightarrow> mse_grad ys ps ! i = safe_div (2 * (ps ! i - ys ! i)) (real (length ps))"
  by (simp add: mse_grad_def)

lemma length_d [simp]:
  "length (d_z1 vs X ys) = length X" "length (d_z2 vs X ys) = length X"
  by (simp_all add: d_z1_def d_z2_def relu_grad_def)

lemma length_d_out:
  "variables_shaped d vs \<Longrightarrow> length (d_out vs X ys) = length X"
  by (simp add: d_out_def mse_grad_def length_predict variables_shaped_def)

lemma d_out_nth:
  assumes "variables_shaped d vs" "i < length X" "X \<noteq> []"
  shows "d_out vs X ys ! i ! 0 = 2 * (predict vs X ! i - ys ! i) / real (length X)"
  using assms by (simp add: d_out_def mse_grad_def length_predict variables_shaped_def safe_div_def)

lemma kernel_grad_nth:
  "k < rows \<Longrightarrow> j < u \<Longrightarrow>
   kernel_grad A dZ rows u ! k ! j = (\<Sum>i<length A. A ! i ! k * dZ ! i ! j)"
  by (simp add: kernel_grad_def sum_list_upt)

lemma bias_grad_nth:
  "j < u \<Longrightarrow> bias_grad dZ u ! j = (\<Sum>i<length dZ. dZ ! i ! j)"
  by (simp add: bias_grad_def sum_list_upt)

lemma input_grad_nth:
  "i < length dZ \<Longrightarrow> k < length K \<Longrightarrow>
   input_grad dZ K u ! i ! k = (\<Sum>j<u. dZ ! i ! j * K ! k ! j)"
  by (simp add: input_grad_def sum_list_upt)

lemma relu_grad_nth:
  "i < length Z \<Longrightarrow> j < u \<Longrightarrow>
   relu_grad Z dH u ! i ! j = (if 0 < Z ! i ! j then dH ! i ! j else 0)"
  by (simp add: relu_grad_def)

lemma d_z2_nth:
  assumes "variables_shaped d vs" "i < length X" "j < 10"
  shows "d_z2 vs X ys ! i ! j =
     (if 0 < z2 vs X ! i ! j then d_out vs X ys ! i ! 0 * kernel3 vs ! j ! 0 else 0)"
  using assms length_d_out[OF assms(1), of X ys]
  by (simp add: d_z2_def relu_grad_nth input_grad_nth variables_shaped_def)

lemma d_z1_nth:
  assumes "variables_shaped d vs" "i < length X" "j < 10"
  shows "d_z1 vs X ys ! i ! j =
     (if 0 < z1 vs X ! i ! j then (\<Sum>m<10. d_z2 vs X ys ! i ! m * kernel2 vs ! j ! m) else 0)"
  using assms
  by (simp add: d_z1_def relu_grad_nth input_grad_nth variables_shaped_def)

subsection \<open>The derivative of the loss along a direction\<close>

lemma layers_apply_gradients_zero [simp]:
  "z1 (apply_gradients 0 D vs) X = z1 vs X" "h1 (apply_gradients 0 D vs) X = h1 vs X"
  "z2 (apply_gradients 0 D vs) X = z2 vs X" "h2 (apply_gradients 0 D vs) X = h2 vs X"
  "z3 (apply_gradients 0 D vs) X = z3 vs X"
  by (simp_all add: z3_def h2_def z2_def h1_def z1_def)

lemma smooth_atD:
  assumes "smooth_at vs X" "variables_shaped d vs" "i < length X" "j < 10"
  shows "z1 vs X ! i ! j \<noteq> 0" "z2 vs X ! i ! j \<noteq> 0"
proof -
  from assms(2) have b: "length (bias1 vs) = 10" "length (bias2 vs) = 10"
    by (simp_all add: variables_shaped_def)
  have "length (z1 vs X ! i) = 10"
    using assms(3) b by (simp add: z1_def pre_activation_row_length)
  with assms show "z1 vs X ! i ! j \<noteq> 0"
    by (simp add: smooth_at_def list_all_length)
  have "length (z2 vs X ! i) = 10"
    using assms(3) b by (simp add: z2_def pre_activation_row_length)
  with assms show "z2 vs X ! i ! j \<noteq> 0"
    by (simp add: smooth_at_def list_all_length)
qed

lemma moved_entries:
  assumes "variables_shaped d vs" "j < 10"
  shows "k < d \<Longrightarrow> descend_mat t (kernel1 vs) G ! k ! j = kernel1 vs ! k ! j - t * G ! k ! j"
    and "descend_vec t (bias1 vs) g ! j = bias1 vs ! j - t * g ! j"
    and "k < 10 \<Longrightarrow> descend_mat t (kernel2 vs) G ! k ! j = kernel2 vs ! k ! j - t * G ! k ! j"
    and "descend_vec t (bias2 vs) g ! j = bias2 vs ! j - t * g ! j"
    and "k < 10 \<Longrightarrow> descend_mat t (kernel3 vs) G ! k ! 0 = kernel3 vs ! k ! 0 - t * G ! k ! 0"
    and "descend_vec t (bias3 vs) g ! 0 = bias3 vs ! 0 - t * g ! 0"
  using assms
  by (simp_all add: descend_mat_nth descend_vec_nth variables_shaped_def list_all_length)

lemma z1_DERIV:
  assumes "variables_shaped d vs" "i < length X" "j < 10"
  shows "DERIV (\<lambda>t. z1 (apply_gradients t D vs) X ! i ! j) 0 :> tangent_z1 d D X i j"
proof -
  have eq: "z1 (apply_gradients t D vs) X ! i ! j =
      (\<Sum>k<d. X ! i ! k * (kernel1 vs ! k ! j - t * d_kernel1 D ! k ! j)) +
      (bias1 vs ! j - t * d_bias1 D ! j)" for t
  proof -
    have "z1 (apply_gradients t D vs) X ! i ! j =
        (\<Sum>k<d. X ! i ! k * descend_mat t (kernel1 vs) (d_kernel1 D) ! k ! j) +
        descend_vec t (bias1 vs) (d_bias1 D) ! j"
      using assms by (simp add: z1_nth[of d])
    also have "\<dots> = (\<Sum>k<d. X ! i ! k * (kernel1 vs ! k ! j - t * d_kernel1 D ! k ! j)) +
        (bias1 vs ! j - t * d_bias1 D ! j)"
      by (intro arg_cong2[where f = "(+)"] sum.cong refl)
        (simp_all add: moved_entries[OF assms(1,3)])
    finally show ?thesis .
  qed
  have "DERIV (\<lambda>t. (\<Sum>k<d. X ! i ! k * (kernel1 vs ! k ! j - t * d_kernel1 D ! k ! j)) +
      (bias1 vs ! j - t * d_bias1 D ! j)) 0 :>
      (\<Sum>k<d. 0 * kernel1 vs ! k ! j - X ! i ! k * d_kernel1 D ! k ! j) - d_bias1 D ! j"
    by (rule dense_DERIV[where A = "\<lambda>t k. X ! i ! k"]) simp
  then show ?thesis
    by (simp add: eq tangent_z1_def sum_negf)
qed

lemma h1_DERIV:
  assumes "variables_shaped d vs" "i < length X" "j < 10" "smooth_at vs X"
  shows "DERIV (\<lambda>t. h1 (apply_gradients t D vs) X ! i ! j) 0 :> tangent_h1 vs d D X i j"
proof -
  have "DERIV (\<lambda>t. relu (z1 (apply_gradients t D vs) X ! i ! j)) 0 :>
      (if 0 < z1 (apply_gradients 0 D vs) X ! i ! j then tangent_z1 d D X i j else 0)"
    using z1_DERIV[OF assms(1-3)] smooth_atD(1)[OF assms(4,1,2,3)]
    by (intro relu_DERIV) simp_all
  then show ?thesis
    using assms by (simp add: h1_nth[of d] tangent_h1_def)
qed

lemma z2_DERIV:
  assumes "variables_shaped d vs" "i < length X" "j < 10" "smooth_at vs X"
  shows "DERIV (\<lambda>t. z2 (apply_gradients t D vs) X ! i ! j) 0 :> tangent_z2 vs d D X i j"
proof -
  have eq: "z2 (apply_gradients t D vs) X ! i ! j =
      (\<Sum>k<10. h1 (apply_gradients t D vs) X ! i ! k *
                (kernel2 vs ! k ! j - t * d_kernel2 D ! k ! j)) +
      (bias2 vs ! j - t * d_bias2 D ! j)" for t
  proof -
    have "z2 (apply_gradients t D vs) X ! i ! j =
        (\<Sum>k<10. h1 (apply_gradients t D vs) X ! i ! k *
                  descend_mat t (kernel2 vs) (d_kernel2 D) ! k ! j) +
        descend_vec t (bias2 vs) (d_bias2 D) ! j"
      using assms by (simp add: z2_nth[of d])
    also have "\<dots> = (\<Sum>k<10. h1 (apply_gradients t D vs) X ! i ! k *
                (kernel2 vs ! k ! j - t * d_kernel2 D ! k ! j)) +
        (bias2 vs ! j - t * d_bias2 D ! j)"
      by (intro arg_cong2[where f = "(+)"] sum.cong refl)
        (simp_all add: moved_entries[OF assms(1,3)])
    finally show ?thesis .
  qed
  have "DERIV (\<lambda>t. (\<Sum>k<10. h1 (apply_gradients t D vs) X ! i ! k *
                (kernel2 vs ! k ! j - t * d_kernel2 D ! k ! j)) +
      (bias2 vs ! j - t * d_bias2 D ! j)) 0 :>
      (\<Sum>k<10. tangent_h1 vs d D X i k * kernel2 vs ! k ! j -
                h1 (apply_gradients 0 D vs) X ! i ! k * d_kernel2 D ! k ! j) - d_bias2 D ! j"
    by (rule dense_DERIV[where A = "\<lambda>t k. h1 (apply_gradients t D vs) X ! i ! k"])
      (rule h1_DERIV[OF assms(1,2) _ assms(4)])
  then show ?thesis
    by (simp add: eq tangent_z2_def)
qed

lemma h2_DERIV:
  assumes "variables_shaped d vs" "i < length X" "j < 10" "smooth_at vs X"
  shows "DERIV (\<lambda>t. h2 (apply_gradients t D vs) X ! i ! j) 0 :> tangent_h2 vs d D X i j"
proof -
  have "DERIV (\<lambda>t. relu (z2 (apply_gradients t D vs) X ! i ! j)) 0 :>
      (if 0 < z2 (apply_gradients 0 D vs) X ! i ! j then tangent_z2 vs d D X i j else 0)"
    using z2_DERIV[OF assms] smooth_atD(2)[OF assms(4,1,2,3)]
    by (intro relu_DERIV) simp_all
  then show ?thesis
    using assms by (simp add: h2_nth[of d] tangent_h2_def)
qed

lemma predict_DERIV:
  assumes "variables_shaped d vs" "i < length X" "smooth_at vs X"
  shows "DERIV (\<lambda>t. predict (apply_gradients t D vs) X ! i) 0 :> tangent_z3 vs d D X i 0"
proof -
  have eq: "predict (apply_gradients t D vs) X ! i =
      (\<Sum>k<10. h2 (apply_gradients t D vs) X ! i ! k *
                (kernel3 vs ! k ! 0 - t * d_kernel3 D ! k ! 0)) +
      (bias3 vs ! 0 - t * d_bias3 D ! 0)" for t
  proof -
    have z: "(0::nat) < 10" by simp
    have "predict (apply_gradients t D vs) X ! i =
        (\<Sum>k<10. h2 (apply_gradients t D vs) X ! i ! k *
                  descend_mat t (kernel3 vs) (d_kernel3 D) ! k ! 0) +
        descend_vec t (bias3 vs) (d_bias3 D) ! 0"
      using assms by (simp add: predict_nth[of d] z3_nth[of d])
    also have "\<dots> = (\<Sum>k<10. h2 (apply_gradients t D vs) X ! i ! k *
                (kernel3 vs ! k ! 0 - t * d_kernel3 D ! k ! 0)) +
        (bias3 vs ! 0 - t * d_bias3 D ! 0)"
      by (intro arg_cong2[where f = "(+)"] sum.cong refl)
        (simp_all add: moved_entries[OF assms(1) z])
    finally show ?thesis .
  qed
  have "DERIV (\<lambda>t. (\<Sum>k<10. h2 (apply_gradients t D vs) X ! i ! k *
                (kernel3 vs ! k ! 0 - t * d_kernel3 D ! k ! 0)) +
      (bias3 vs ! 0 - t * d_bias3 D ! 0)) 0 :>
      (\<Sum>k<10. tangent_h2 vs d D X i k * kernel3 vs ! k ! 0 -
                h2 (apply_gradients 0 D vs) X ! i ! k * d_kernel3 D ! k ! 0) - d_bias3 D ! 0"
    by (rule dense_DERIV[where A = "\<lambda>t k. h2 (apply_gradients t D vs) X ! i ! k"])
      (rule h2_DERIV[OF assms(1,2) _ assms(3)])
  then show ?thesis
    by (simp add: eq tangent_z3_def)
qed

lemma batch_loss_DERIV:
  assumes "variables_shaped d vs" "X \<noteq> []" "smooth_at vs X"
  shows "DERIV (\<lambda>t. batch_loss (apply_gradients t D vs) X ys) 0 :>
           (\<Sum>i<length X. d_out vs X ys ! i ! 0 * tangent_z3 vs d D X i 0)"
proof -
  have eq: "batch_loss (apply_gradients t D vs) X ys =
      (\<Sum>i<length X. (ys ! i - predict (apply_gradients t D vs) X ! i)\<^sup>2) / real (length X)"
    for t
    using assms(1,2)
    by (simp add: batch_loss_def mse_as_sum length_predict safe_div_def variables_shaped_def)
  have "DERIV (\<lambda>t. (\<Sum>i<length X. (ys ! i - predict (apply_gradients t D vs) X ! i)\<^sup>2) /
                   real (length X)) 0 :>
        (\<Sum>i<length X. 2 * (predict (apply_gradients 0 D vs) X ! i - ys ! i) / real (length X) *
                        tangent_z3 vs d D X i 0)"
    by (rule mean_square_DERIV[where P = "\<lambda>t i. predict (apply_gradients t D vs) X ! i"])
      (rule predict_DERIV[OF assms(1) _ assms(3)])
  moreover have "(\<Sum>i<length X. 2 * (predict (apply_gradients 0 D vs) X ! i - ys ! i) /
                     real (length X) * tangent_z3 vs d D X i 0) =
      (\<Sum>i<length X. d_out vs X ys ! i ! 0 * tangent_z3 vs d D X i 0)"
    using assms(1,2) by (intro sum.cong refl) (simp add: d_out_nth[of d])
  ultimately show ?thesis
    by (simp add: eq)
qed

subsection \<open>The reverse-mode gradients are the gradient of the loss\<close>

lemma dot_kernel_grad:
  "dot_mat rows u (kernel_grad A dZ rows u) G =
     (\<Sum>k<rows. \<Sum>j<u. (\<Sum>i<length A. A ! i ! k * dZ ! i ! j) * G ! k ! j)"
  unfolding dot_mat_def by (intro sum.cong refl) (simp add: kernel_grad_nth)

lemma dot_bias_grad:
  "dot_vec u (bias_grad dZ u) g = (\<Sum>j<u. (\<Sum>i<length dZ. dZ ! i ! j) * g ! j)"
  unfolding dot_vec_def by (intro sum.cong refl) (simp add: bias_grad_nth)

lemma adjoint_layer3:
  assumes "variables_shaped d vs"
  shows "(\<Sum>i<length X. d_out vs X ys ! i ! 0 * tangent_z3 vs d D X i 0) =
         (\<Sum>i<length X. \<Sum>k<10. d_z2 vs X ys ! i ! k * tangent_z2 vs d D X i k)
         - dot_mat 10 1 (kernel_grad (h2 vs X) (d_out vs X ys) 10 1) (d_kernel3 D)
         - dot_vec 1 (bias_grad (d_out vs X ys) 1) (d_bias3 D)"
proof -
  have "(\<Sum>i<length X. d_out vs X ys ! i ! 0 * tangent_z3 vs d D X i 0) =
        (\<Sum>i<length X. \<Sum>j<1. d_out vs X ys ! i ! j *
           ((\<Sum>k<10. tangent_h2 vs d D X i k * kernel3 vs ! k ! j -
                      h2 vs X ! i ! k * d_kernel3 D ! k ! j) - d_bias3 D ! j))"
    by (simp add: tangent_z3_def)
  also have "\<dots> =
        (\<Sum>i<length X. \<Sum>k<10. (\<Sum>j<1. d_out vs X ys ! i ! j * kernel3 vs ! k ! j) *
                                 tangent_h2 vs d D X i k)
        - (\<Sum>k<10. \<Sum>j<1. (\<Sum>i<length X. h2 vs X ! i ! k * d_out vs X ys ! i ! j) *
                            d_kernel3 D ! k ! j)
        - (\<Sum>j<1. (\<Sum>i<length X. d_out vs X ys ! i ! j) * d_bias3 D ! j)"
    by (rule layer_adjoint)
  also have "(\<Sum>i<length X. \<Sum>k<10. (\<Sum>j<1. d_out vs X ys ! i ! j * kernel3 vs ! k ! j) *
                                 tangent_h2 vs d D X i k) =
        (\<Sum>i<length X. \<Sum>k<10. d_z2 vs X ys ! i ! k * tangent_z2 vs d D X i k)"
    using assms by (intro sum.cong refl) (simp add: d_z2_nth[of d] tangent_h2_def)
  finally show ?thesis
    using length_d_out[OF assms, of X ys]
    by (simp only: dot_kernel_grad dot_bias_grad length_layers)
qed

lemma adjoint_layer2:
  assumes "variables_shaped d vs"
  shows "(\<Sum>i<length X. \<Sum>j<10. d_z2 vs X ys ! i ! j * tangent_z2 vs d D X i j) =
         (\<Sum>i<length X. \<Sum>k<10. d_z1 vs X ys ! i ! k * tangent_z1 d D X i k)
         - dot_mat 10 10 (kernel_grad (h1 vs X) (d_z2 vs X ys) 10 10) (d_kernel2 D)
         - dot_vec 10 (bias_grad (d_z2 vs X ys) 10) (d_bias2 D)"
proof -
  have "(\<Sum>i<length X. \<Sum>j<10. d_z2 vs X ys ! i ! j * tangent_z2 vs d D X i j) =
        (\<Sum>i<length X. \<Sum>j<10. d_z2 vs X ys ! i ! j *
           ((\<Sum>k<10. tangent_h1 vs d D X i k * kernel2 vs ! k ! j -
                      h1 vs X ! i ! k * d_kernel2 D ! k ! j) - d_bias2 D ! j))"
    by (simp add: tangent_z2_def)
  also have "\<dots> =
        (\<Sum>i<length X. \<Sum>k<10. (\<Sum>j<10. d_z2 vs X ys ! i ! j * kernel2 vs ! k ! j) *
                                 tangent_h1 vs d D X i k)
        - (\<Sum>k<10. \<Sum>j<10. (\<Sum>i<length X. h1 vs X ! i ! k * d_z2 vs X ys ! i ! j) *
                             d_kernel2 D ! k ! j)
        - (\<Sum>j<10. (\<Sum>i<length X. d_z2 vs X ys ! i ! j) * d_bias2 D ! j)"
    by (rule layer_adjoint)
  also have "(\<Sum>i<length X. \<Sum>k<10. (\<Sum>j<10. d_z2 vs X ys ! i ! j * kernel2 vs ! k ! j) *
                                 tangent_h1 vs d D X i k) =
        (\<Sum>i<length X. \<Sum>k<10. d_z1 vs X ys ! i ! k * tangent_z1 d D X i k)"
    using assms by (intro sum.cong refl) (simp add: d_z1_nth[of d] tangent_h1_def)
  finally show ?thesis
    by (simp only: dot_kernel_grad dot_bias_grad length_layers length_d)
qed

lemma adjoint_layer1:
  "(\<Sum>i<length X. \<Sum>j<10. d_z1 vs X ys ! i ! j * tangent_z1 d D X i j) =
     - dot_mat d 10 (kernel_grad X (d_z1 vs X ys) d 10) (d_kernel1 D)
     - dot_vec 10 (bias_grad (d_z1 vs X ys) 10) (d_bias1 D)"
proof -
  have "(\<Sum>i<length X. \<Sum>j<10. d_z1 vs X ys ! i ! j * tangent_z1 d D X i j) =
        (\<Sum>i<length X. \<Sum>j<10. d_z1 vs X ys ! i ! j *
           ((\<Sum>k<d. 0 * 0 - X ! i ! k * d_kernel1 D ! k ! j) - d_bias1 D ! j))"
    by (simp add: tangent_z1_def sum_negf)
  also have "\<dots> =
        (\<Sum>i<length X. \<Sum>k<d. (\<Sum>j<10. d_z1 vs X ys ! i ! j * 0) * 0)
        - (\<Sum>k<d. \<Sum>j<10. (\<Sum>i<length X. X ! i ! k * d_z1 vs X ys ! i ! j) *
                            d_kernel1 D ! k ! j)
        - (\<Sum>j<10. (\<Sum>i<length X. d_z1 vs X ys ! i ! j) * d_bias1 D ! j)"
    by (rule layer_adjoint)
  finally show ?thesis
    by (simp add: dot_kernel_grad dot_bias_grad)
qed

lemma adjoint_identity:
  assumes "variables_shaped d vs"
  shows "(\<Sum>i<length X. d_out vs X ys ! i ! 0 * tangent_z3 vs d D X i 0) =
         - dot_gradients d (compute_gradients vs X ys) D"
proof -
  from assms have len: "length (kernel1 vs) = d" "length (kernel2 vs) = 10"
    "length (kernel3 vs) = 10"
    by (simp_all add: variables_shaped_def)
  show ?thesis
    unfolding adjoint_layer3[OF assms] adjoint_layer2[OF assms] adjoint_layer1
    by (simp add: dot_gradients_def compute_gradients_def len)
qed

theorem loss_directional_derivative:
  assumes "variables_shaped d vs" "X \<noteq> []" "smooth_at vs X"
  shows "DERIV (\<lambda>t. batch_loss (apply_gradients t D vs) X ys) 0 :>
           - dot_gradients d (compute_gradients vs X ys) D"
  using batch_loss_DERIV[OF assms, of D ys] by (simp add: adjoint_identity[OF assms(1)])

subsection \<open>States with zero kernels\<close>

lemma pre_activation_zero_kernel:
  assumes "length b = u" "\<forall>k<length K. \<forall>j<u. K ! k ! j = 0"
  shows "pre_activation u K b X = replicate (length X) b"
  using assms
  by (auto intro!: nth_equalityI simp: pre_activation_nth pre_activation_row_length)

lemma bias_only_shaped: "variables_shaped 7 (bias_only_variables c1 c2 c3 step)"
  by (simp add: variables_shaped_def bias_only_variables_def list_all_iff)

lemma bias_only_layers:
  "z1 (bias_only_variables c1 c2 c3 step) X = replicate (length X) (replicate 10 c1)"
  "h1 (bias_only_variables c1 c2 c3 step) X = replicate (length X) (replicate 10 (relu c1))"
  "z2 (bias_only_variables c1 c2 c3 step) X = replicate (length X) (replicate 10 c2)"
  "h2 (bias_only_variables c1 c2 c3 step) X = replicate (length X) (replicate 10 (relu c2))"
  "z3 (bias_only_variables c1 c2 c3 step) X = replicate (length X) [c3]"
  "predict (bias_only_variables c1 c2 c3 step) X = replicate (length X) c3"
proof -
  let ?vs = "bias_only_variables c1 c2 c3 step"
  show a: "z1 ?vs X = replicate (length X) (replicate 10 c1)"
    unfolding z1_def
    using pre_activation_zero_kernel[of "bias1 ?vs" 10 "kernel1 ?vs" X]
    by (simp add: bias_only_variables_def)
  then show b: "h1 ?vs X = replicate (length X) (replicate 10 (relu c1))"
    by (simp add: h1_def)
  show c: "z2 ?vs X = replicate (length X) (replicate 10 c2)"
    unfolding z2_def
    using pre_activation_zero_kernel[of "bias2 ?vs" 10 "kernel2 ?vs" "h1 ?vs X"]
    by (simp add: bias_only_variables_def)
  then show d: "h2 ?vs X = replicate (length X) (replicate 10 (relu c2))"
    by (simp add: h2_def)
  show e: "z3 ?vs X = replicate (length X) [c3]"
    unfolding z3_def
    using pre_activation_zero_kernel[of "bias3 ?vs" 1 "kernel3 ?vs" "h2 ?vs X"]
    by (simp add: bias_only_variables_def)
  then show "predict ?vs X = replicate (length X) c3"
    by (simp add: predict_def concat_replicate_singleton)
qed

lemma bias_only_smooth:
  "c1 \<noteq> 0 \<Longrightarrow> c2 \<noteq> 0 \<Longrightarrow> smooth_at (bias_only_variables c1 c2 c3 step) X"
  by (simp add: smooth_at_def bias_only_layers list_all_iff)

lemma bias_only_inactive_gradients:
  assumes "c1 \<le> 0" "c2 \<le> 0"
  shows "compute_gradients (bias_only_variables c1 c2 c3 step) X ys =
     \<lparr>d_kernel1 = replicate 7 (replicate 10 0), d_bias1 = replicate 10 0,
      d_kernel2 = replicate 10 (replicate 10 0), d_bias2 = replicate 10 0,
      d_kernel3 = replicate 10 [0],
      d_bias3 = [\<Sum>i<length X. safe_div (2 * (c3 - ys ! i)) (real (length X))]\<rparr>"
proof -
  let ?vs = "bias_only_variables c1 c2 c3 step"
  note sh = bias_only_shaped[of c1 c2 c3 step]
  have relu0: "relu c2 = 0" using assms(2) by (simp add: relu_def)
  have dz2: "d_z2 ?vs X ys = replicate (length X) (replicate 10 0)"
    using assms(2)
    by (auto intro!: nth_equalityI simp: d_z2_def relu_grad_def bias_only_layers)
  have dz1: "d_z1 ?vs X ys = replicate (length X) (replicate 10 0)"
    using assms(1)
    by (auto intro!: nth_equalityI simp: d_z1_def relu_grad_def bias_only_layers)
  have dout: "length (d_out ?vs X ys) = length X"
    by (rule length_d_out[OF sh])
  have dout_nth: "d_out ?vs X ys ! i ! 0 = safe_div (2 * (c3 - ys ! i)) (real (length X))"
    if "i < length X" for i
    using that by (simp add: d_out_def mse_grad_def bias_only_layers)
  have k1: "kernel_grad X (d_z1 ?vs X ys) 7 10 = replicate 7 (replicate 10 0)"
    by (auto intro!: nth_equalityI simp: kernel_grad_def dz1 sum_list_upt)
  have b1: "bias_grad (d_z1 ?vs X ys) 10 = replicate 10 0"
    by (auto intro!: nth_equalityI simp: bias_grad_def dz1 sum_list_upt)
  have k2: "kernel_grad (h1 ?vs X) (d_z2 ?vs X ys) 10 10 = replicate 10 (replicate 10 0)"
    by (auto intro!: nth_equalityI simp: kernel_grad_def dz2 sum_list_upt)
  have b2: "bias_grad (d_z2 ?vs X ys) 10 = replicate 10 0"
    by (auto intro!: nth_equalityI simp: bias_grad_def dz2 sum_list_upt)
  have k3: "kernel_grad (h2 ?vs X) (d_out ?vs X ys) 10 1 = replicate 10 [0]"
    by (auto intro!: nth_equalityI simp: kernel_grad_def bias_only_layers relu0 sum_list_upt)
  have b3: "bias_grad (d_out ?vs X ys) 1 =
      [\<Sum>i<length X. safe_div (2 * (c3 - ys ! i)) (real (length X))]"
    by (simp add: bias_grad_def sum_list_upt dout dout_nth)
  have len: "length (kernel1 ?vs) = 7" "length (kernel2 ?vs) = 10" "length (kernel3 ?vs) = 10"
    by (simp_all add: bias_only_variables_def)
  show ?thesis
    unfolding compute_gradients_def len k1 b1 k2 b2 k3 b3 by (rule refl)
qed

lemma descend_zero_gradient:
  "descend_vec lr (replicate u c) (replicate u 0) = replicate u c"
  "descend_mat lr (replicate r (replicate u c)) (replicate r (replicate u 0)) =
     replicate r (replicate u c)"
  by (auto intro!: nth_equalityI simp: descend_vec_def descend_mat_def)

lemma same_weights_refl [simp]:
  "same_weights vs vs"
  "same_weights (vs\<lparr>optimizer_learning_rate := r\<rparr>) vs"
  "same_weights (vs\<lparr>global_step := n\<rparr>) vs"
  "same_weights (vs\<lparr>global_step := n, optimizer_learning_rate := r\<rparr>) vs"
  by (simp_all add: same_weights_def)

lemma same_weights_layers:
  assumes "same_weights vs2 vs"
  shows "z1 vs2 X = z1 vs X" "h1 vs2 X = h1 vs X" "z2 vs2 X = z2 vs X" "h2 vs2 X = h2 vs X"
    "z3 vs2 X = z3 vs X" "predict vs2 X = predict vs X"
    "batch_loss vs2 X ys = batch_loss vs X ys"
    "variables_shaped d vs2 = variables_shaped d vs"
    "smooth_at vs2 X = smooth_at vs X"
  using assms
  by (simp_all add: same_weights_def predict_def z3_def h2_def z2_def h1_def z1_def
      batch_loss_def variables_shaped_def smooth_at_def)

lemma same_weights_gradients:
  assumes "same_weights vs2 vs"
  shows "compute_gradients vs2 X ys = compute_gradients vs X ys"
proof -
  note l = same_weights_layers[OF assms]
  have o: "d_out vs2 X ys = d_out vs X ys"
    by (simp add: d_out_def l)
  have k: "kernel1 vs2 = kernel1 vs" "kernel2 vs2 = kernel2 vs" "kernel3 vs2 = kernel3 vs"
    using assms by (simp_all add: same_weights_def)
  have b: "d_z2 vs2 X ys = d_z2 vs X ys"
    by (simp add: d_z2_def l o k)
  have a: "d_z1 vs2 X ys = d_z1 vs X ys"
    by (simp add: d_z1_def l b k)
  show ?thesis
    by (simp add: compute_gradients_def l o a b k)
qed

lemma bias_only_inactive_step:
  assumes "c1 \<le> 0" "c2 \<le> 0"
  shows "apply_gradients lr (compute_gradients (bias_only_variables c1 c2 c3 step) X ys)
           (bias_only_variables c1 c2 c3 step) =
         (bias_only_variables c1 c2
           (c3 - lr * (\<Sum>i<length X. safe_div (2 * (c3 - ys ! i)) (real (length X))))
           (step + 1))\<lparr>optimizer_learning_rate := Some lr\<rparr>"
  unfolding bias_only_inactive_gradients[OF assms]
  using descend_zero_gradient(1)[where lr = lr and u = 10 and c = c1]
    descend_zero_gradient(1)[where lr = lr and u = 10 and c = c2]
    descend_zero_gradient(2)[where lr = lr and r = 7 and u = 10 and c = 0]
    descend_zero_gradient(2)[where lr = lr and r = 10 and u = 10 and c = 0]
    descend_zero_gradient(2)[where lr = lr and r = 10 and u = 1 and c = 0]
  by (simp add: apply_gradients_def bias_only_variables_def descend_vec_def)

subsection \<open>One step of gradient descent\<close>

lemma network_Inr_shaped:
  assumes "network vs X = Inr p" "X \<noteq> []"
  shows "variables_shaped (length (kernel1 vs)) vs"
proof -
  from assms(1) have s1: "shapes_ok 10 (kernel1 vs) (bias1 vs) X"
    by (auto simp: network_def Dense_def split: if_splits)
  with assms(1) have s2: "shapes_ok 10 (kernel2 vs) (bias2 vs) (h1 vs X)"
    by (auto simp: network_def Dense_def h1_def z1_def split: if_splits)
  with assms(1) s1 have s3: "shapes_ok 1 (kernel3 vs) (bias3 vs) (h2 vs X)"
    by (auto simp: network_def Dense_def h1_def z1_def h2_def z2_def split: if_splits)
  from assms(2) have pos: "0 < length X" by simp
  from s1 have b1: "length (bias1 vs) = 10" by (simp add: shapes_ok_def)
  from s2 have b2: "length (bias2 vs) = 10" by (simp add: shapes_ok_def)
  have "length (h1 vs X ! 0) = 10"
    using pos b1 by (simp add: h1_def z1_def pre_activation_row_length)
  moreover from s2 pos have "length (h1 vs X ! 0) = length (kernel2 vs)"
    by (simp add: shapes_ok_def list_all_length)
  ultimately have k2: "length (kernel2 vs) = 10" by simp
  have "length (h2 vs X ! 0) = 10"
    using pos b2 by (simp add: h2_def z2_def pre_activation_row_length)
  moreover from s3 pos have "length (h2 vs X ! 0) = length (kernel3 vs)"
    by (simp add: shapes_ok_def list_all_length)
  ultimately have k3: "length (kernel3 vs) = 10" by simp
  from s1 s2 s3 k2 k3 show ?thesis
    by (simp add: variables_shaped_def shapes_ok_def)
qed

lemma dot_self_nonneg:
  "0 \<le> dot_vec u a a" "0 \<le> dot_mat r u A A"
  by (simp_all add: dot_vec_def dot_mat_def sum_nonneg)

lemma dot_gradients_self_nonneg: "0 \<le> dot_gradients d g g"
  unfolding dot_gradients_def
  by (intro add_nonneg_nonneg dot_self_nonneg)

lemma invoke_TRAIN_Inr:
  assumes "invoke vs features labels TRAIN params = Inr (spec, vs')"
  obtains X ls lr where
    "features INPUT_TENSOR_NAME = Some X" "labels = Some ls" "length ls = length X"
    "params ''learning_rate'' = Some (PyFloat lr)" "0 \<le> lr"
    "network vs X = Inr \<lparr>dtype = DT_FLOAT, elems = predict vs X\<rparr>"
    "vs' = apply_gradients (get_learning_rate vs lr) (compute_gradients vs X (to_float ls)) vs"
    "spec = \<lparr>spec_mode = TRAIN,
             spec_predictions = None,
             spec_loss = Some (mse (to_float ls) (predict vs X)),
             spec_train_op = Some vs',
             spec_eval_metric_ops = Some [''rmse'' \<mapsto> sqrt (mse (to_float ls) (predict vs X))],
             spec_export_outputs = None\<rparr>"
proof -
  from assms have m: "model_fn vs features labels TRAIN params = Inr spec"
    and v: "vs' = run_ops spec vs"
    by (auto simp: invoke_def split: sum.splits)
  have ne: "TRAIN \<noteq> PREDICT" by simp
  from model_fn_other_Inr[OF ne m] obtain X ls lr where h:
    "features INPUT_TENSOR_NAME = Some X" "labels = Some ls" "length ls = length X"
    "params ''learning_rate'' = Some (PyFloat lr)" "0 \<le> lr"
    "network vs X = Inr \<lparr>dtype = DT_FLOAT, elems = predict vs X\<rparr>"
    "length (predict vs X) = length X"
    "spec = \<lparr>spec_mode = TRAIN,
             spec_predictions = None,
             spec_loss = Some (mse (to_float ls) (predict vs X)),
             spec_train_op = Some (apply_gradients (get_learning_rate vs lr)
                                    (compute_gradients vs X (to_float ls)) vs),
             spec_eval_metric_ops = Some [''rmse'' \<mapsto> sqrt (mse (to_float ls) (predict vs X))],
             spec_export_outputs = None\<rparr>"
    by blast
  have "vs' = apply_gradients (get_learning_rate vs lr) (compute_gradients vs X (to_float ls)) vs"
    unfolding v h(8) run_ops_def by simp
  with h that show thesis
    by simp
qed

lemma sint_add_of_nat:
  fixes x :: "64 word"
  assumes "sint x + int n < 2 ^ 63"
  shows "sint (x + of_nat n) = sint x + int n"
proof -
  have "x + of_nat n = word_of_int (sint x + int n)"
    by simp
  then have "sint (x + of_nat n) = signed_take_bit 63 (sint x + int n)"
    by (simp only: sint_sbintrunc') simp
  moreover have "- (2 ^ 63) \<le> sint x + int n"
    using sint_ge[of x] by simp
  ultimately show ?thesis
    using assms by (simp add: signed_take_bit_int_eq_self)
qed

lemma train_run_global_step:
  "train_run vs batches params = Inr vs'' \<Longrightarrow>
   global_step vs'' = global_step vs + of_nat (length batches)"
proof (induction batches arbitrary: vs)
  case Nil
  then show ?case by simp
next
  case (Cons b batches)
  obtain features labels where b: "b = (features, labels)"
    by (cases b)
  from Cons.prems b obtain spec vs' where
    i: "invoke vs features labels TRAIN params = Inr (spec, vs')"
    and r: "train_run vs' batches params = Inr vs''"
    by (auto split: sum.splits)
  have "global_step vs' = global_step vs + 1"
  proof (rule invoke_TRAIN_Inr[OF i])
    fix X ls lr
    assume "vs' = apply_gradients (get_learning_rate vs lr)
                    (compute_gradients vs X (to_float ls)) vs"
    then show ?thesis
      by (simp only: apply_gradients_sel)
  qed
  with Cons.IH[OF r] show ?case
    by simp
qed

lemma train_run_keeps_rate:
  "train_run vs batches params = Inr vs'' \<Longrightarrow> optimizer_learning_rate vs = Some r \<Longrightarrow>
   optimizer_learning_rate vs'' = Some r"
proof (induction batches arbitrary: vs)
  case Nil
  then show ?case by simp
next
  case (Cons b batches)
  obtain features labels where b: "b = (features, labels)"
    by (cases b)
  from Cons.prems(1) b obtain spec vs' where
    i: "invoke vs features labels TRAIN params = Inr (spec, vs')"
    and r: "train_run vs' batches params = Inr vs''"
    by (auto split: sum.splits)
  have "optimizer_learning_rate vs' = Some r"
  proof (rule invoke_TRAIN_Inr[OF i])
    fix X ls lr
    assume "vs' = apply_gradients (get_learning_rate vs lr)
                    (compute_gradients vs X (to_float ls)) vs"
    then have "optimizer_learning_rate vs' = Some (get_learning_rate vs lr)"
      by (simp only: apply_gradients_sel)
    with Cons.prems(2) show ?thesis
      by (simp add: get_learning_rate_def)
  qed
  from Cons.IH[OF r this] show ?case .
qed

lemma dot_zero:
  "dot_vec u (replicate u 0) b = 0"
  "dot_mat r u (replicate r (replicate u 0)) B = 0"
  by (simp_all add: dot_vec_def dot_mat_def)

lemma invoke_TRAIN_shaped:
  assumes "variables_shaped d vs" "features_shaped d X" "features INPUT_TENSOR_NAME = Some X"
    "length ls = length X" "params ''learning_rate'' = Some (PyFloat lr)" "0 \<le> lr"
  shows "invoke vs features (Some ls) TRAIN params =
     Inr (\<lparr>spec_mode = TRAIN,
           spec_predictions = None,
           spec_loss = Some (batch_loss vs X (to_float ls)),
           spec_train_op = Some (apply_gradients (get_learning_rate vs lr)
                                  (compute_gradients vs X (to_float ls)) vs),
           spec_eval_metric_ops = Some [''rmse'' \<mapsto> sqrt (batch_loss vs X (to_float ls))],
           spec_export_outputs = None\<rparr>,
          apply_gradients (get_learning_rate vs lr) (compute_gradients vs X (to_float ls)) vs)"
proof -
  have ne: "TRAIN \<noteq> PREDICT" by simp
  show ?thesis
    unfolding invoke_def batch_loss_def
    using model_fn_other_shaped[of TRAIN d vs X features ls params lr] assms
    by (simp add: run_ops_def)
qed

lemma apply_gradients_stored_rate [simp]:
  "apply_gradients lr g (vs\<lparr>optimizer_learning_rate := r\<rparr>) = apply_gradients lr g vs"
  by (simp add: apply_gradients_def)

lemma get_learning_rate_simps [simp]:
  "get_learning_rate (vs\<lparr>optimizer_learning_rate := Some r\<rparr>) lr = r"
  "get_learning_rate (vs\<lparr>optimizer_learning_rate := None\<rparr>) lr = lr"
  "get_learning_rate (bias_only_variables c1 c2 c3 step) lr = lr"
  by (simp_all add: get_learning_rate_def bias_only_variables_def)

lemma bias_only_sel [simp]:
  "length (kernel1 (bias_only_variables c1 c2 c3 step)) = 7"
  "bias3 (bias_only_variables c1 c2 c3 step) = [c3]"
  "global_step (bias_only_variables c1 c2 c3 step) = step"
  "optimizer_learning_rate (bias_only_variables c1 c2 c3 step) = None"
  by (simp_all add: bias_only_variables_def)

text \<open>
  A training invocation at a state with zero kernels and hidden biases that are not
  positive, with or without a stored learning rate \<open>r\<close>.
\<close>

lemma bias_only_train_step:
  assumes "c1 \<le> 0" "c2 \<le> 0" "features_shaped 7 X" "length ls = length X" "0 \<le> lr"
  shows "invoke ((bias_only_variables c1 c2 c3 step)\<lparr>optimizer_learning_rate := r\<rparr>)
       [INPUT_TENSOR_NAME \<mapsto> X] (Some ls) TRAIN [''learning_rate'' \<mapsto> PyFloat lr] =
     Inr (\<lparr>spec_mode = TRAIN,
           spec_predictions = None,
           spec_loss = Some (batch_loss (bias_only_variables c1 c2 c3 step) X (to_float ls)),
           spec_train_op = Some
             ((bias_only_variables c1 c2
                (c3 - (case r of None \<Rightarrow> lr | Some stored \<Rightarrow> stored) *
                   (\<Sum>i<length X. safe_div (2 * (c3 - to_float ls ! i)) (real (length X))))
                (step + 1))
              \<lparr>optimizer_learning_rate := Some (case r of None \<Rightarrow> lr | Some stored \<Rightarrow> stored)\<rparr>),
           spec_eval_metric_ops =
             Some [''rmse'' \<mapsto> sqrt (batch_loss (bias_only_variables c1 c2 c3 step) X (to_float ls))],
           spec_export_outputs = None\<rparr>,
          (bias_only_variables c1 c2
             (c3 - (case r of None \<Rightarrow> lr | Some stored \<Rightarrow> stored) *
                (\<Sum>i<length X. safe_div (2 * (c3 - to_float ls ! i)) (real (length X))))
             (step + 1))
          \<lparr>optimizer_learning_rate := Some (case r of None \<Rightarrow> lr | Some stored \<Rightarrow> stored)\<rparr>)"
proof -
  let ?B = "bias_only_variables c1 c2 c3 step"
  let ?vs = "?B\<lparr>optimizer_learning_rate := r\<rparr>"
  let ?P = "[''learning_rate'' \<mapsto> PyFloat lr]"
  have sw: "same_weights ?vs ?B" by simp
  have sh: "variables_shaped 7 ?vs"
    using same_weights_layers(8)[OF sw, of 7] bias_only_shaped[of c1 c2 c3 step] by simp
  have f: "[INPUT_TENSOR_NAME \<mapsto> X] INPUT_TENSOR_NAME = Some X" by simp
  have p: "?P ''learning_rate'' = Some (PyFloat lr)" by simp
  have g: "get_learning_rate ?vs lr = (case r of None \<Rightarrow> lr | Some stored \<Rightarrow> stored)"
    by (simp add: get_learning_rate_def)
  note i = invoke_TRAIN_shaped[of 7 ?vs X "[INPUT_TENSOR_NAME \<mapsto> X]" ls ?P lr,
      OF sh assms(3) f assms(4) p assms(5)]
  show ?thesis
    unfolding i g same_weights_layers(7)[OF sw] same_weights_gradients[OF sw]
      apply_gradients_stored_rate bias_only_inactive_step[OF assms(1,2)]
    by (rule refl)
qed

lemma bias_only_fresh [simp]:
  "(bias_only_variables c1 c2 c3 step)\<lparr>optimizer_learning_rate := None\<rparr> =
   bias_only_variables c1 c2 c3 step"
  by (simp add: bias_only_variables_def)

lemma one_row_features [simp]: "features_shaped 7 [[0, 0, 0, 0, 0, 0, 0]]"
  by (simp add: features_shaped_def)

lemma one_row_loss:
  "batch_loss (bias_only_variables c1 c2 c3 step) [[0, 0, 0, 0, 0, 0, 0]] (to_float [y]) =
   (real_of_int y - c3)\<^sup>2"
  by (simp add: batch_loss_def bias_only_layers mse_as_sum to_float_def safe_div_def)

text \<open>
  Claim C7, as the specification states it, has the training step descend with the
  learning rate \<open>params["learning_rate"]\<close>. \<open>optimize_loss\<close> keeps the rate in a
  variable of its own, which the float it is given only initialises; a run that resumes
  from saved variables descends with the rate saved there. A first training invocation
  with \<open>params["learning_rate"] = 1/2\<close> on fresh variables at global step 4 leaves a
  state at global step 5 that holds the stored rate \<open>1/2\<close>, zero kernels, hidden
  biases \<open>-1\<close> and output bias \<open>0\<close>. There the label \<open>3\<close> gives the gradient
  \<open>-6\<close> for the output bias; a training invocation with
  \<open>params["learning_rate"] = 1/4\<close> leaves the output bias \<open>3\<close>, the step with the
  stored rate, and not \<open>3/2\<close>, the step with the rate in \<open>params\<close>.
\<close>

theorem stored_rate_counterexample:
  "map_sum id snd
     (invoke (bias_only_variables (- 1) (- 1) (- 1) 4)
        [INPUT_TENSOR_NAME \<mapsto> [[0, 0, 0, 0, 0, 0, 0]]] (Some [0]) TRAIN
        [''learning_rate'' \<mapsto> PyFloat (1 / 2)]) =
     Inr ((bias_only_variables (- 1) (- 1) 0 5)\<lparr>optimizer_learning_rate := Some (1 / 2)\<rparr>) \<and>
   invoke ((bias_only_variables (- 1) (- 1) 0 5)\<lparr>optimizer_learning_rate := Some (1 / 2)\<rparr>)
     [INPUT_TENSOR_NAME \<mapsto> [[0, 0, 0, 0, 0, 0, 0]]] (Some [3]) TRAIN
     [''learning_rate'' \<mapsto> PyFloat (1 / 4)] =
   Inr (\<lparr>spec_mode = TRAIN,
         spec_predictions = None,
         spec_loss = Some 9,
         spec_train_op = Some
           ((bias_only_variables (- 1) (- 1) 3 6)\<lparr>optimizer_learning_rate := Some (1 / 2)\<rparr>),
         spec_eval_metric_ops = Some [''rmse'' \<mapsto> 3],
         spec_export_outputs = None\<rparr>,
        (bias_only_variables (- 1) (- 1) 3 6)\<lparr>optimizer_learning_rate := Some (1 / 2)\<rparr>) \<and>
   bias3 ((bias_only_variables (- 1) (- 1) 0 5)\<lparr>optimizer_learning_rate := Some (1 / 2)\<rparr>) = [0] \<and>
   d_bias3 (compute_gradients
      ((bias_only_variables (- 1) (- 1) 0 5)\<lparr>optimizer_learning_rate := Some (1 / 2)\<rparr>)
      [[0, 0, 0, 0, 0, 0, 0]] (to_float [3])) = [- 6] \<and>
   descend_vec (1 / 4) [0] [- 6] = [3 / 2] \<and>
   bias3 ((bias_only_variables (- 1) (- 1) 3 6)\<lparr>optimizer_learning_rate := Some (1 / 2)\<rparr>) \<noteq>
     descend_vec (1 / 4) [0] [- 6]"
proof -
  let ?B = "bias_only_variables (- 1) (- 1) 0 5"
  let ?S = "?B\<lparr>optimizer_learning_rate := Some (1 / 2)\<rparr>"
  have sw: "same_weights ?S ?B" by simp
  have g: "d_bias3 (compute_gradients ?S [[0, 0, 0, 0, 0, 0, 0]] (to_float [3])) = [- 6]"
    unfolding same_weights_gradients[OF sw]
    by (simp add: bias_only_inactive_gradients to_float_def safe_div_def)
  have d: "descend_vec (1 / 4) [0] [- 6] = [3 / 2]"
    by (simp add: descend_vec_def)
  have l: "batch_loss ?B [[0, 0, 0, 0, 0, 0, 0]] [3] = 9"
    using one_row_loss[of "- 1" "- 1" 0 5 3] by (simp add: to_float_def)
  have i: "invoke ?S [INPUT_TENSOR_NAME \<mapsto> [[0, 0, 0, 0, 0, 0, 0]]] (Some [3]) TRAIN
     [''learning_rate'' \<mapsto> PyFloat (1 / 4)] =
   Inr (\<lparr>spec_mode = TRAIN,
         spec_predictions = None,
         spec_loss = Some 9,
         spec_train_op = Some
           ((bias_only_variables (- 1) (- 1) 3 6)\<lparr>optimizer_learning_rate := Some (1 / 2)\<rparr>),
         spec_eval_metric_ops = Some [''rmse'' \<mapsto> 3],
         spec_export_outputs = None\<rparr>,
        (bias_only_variables (- 1) (- 1) 3 6)\<lparr>optimizer_learning_rate := Some (1 / 2)\<rparr>)"
    using bias_only_train_step[where ?c1.0 = "- 1" and ?c2.0 = "- 1"
        and X = "[[0, 0, 0, 0, 0, 0, 0]]" and ls = "[3]" and lr = "1 / 4" and ?c3.0 = 0
        and step = 5 and r = "Some (1 / 2)"]
    by (simp add: l sqrt_nine to_float_def safe_div_def)
  have f: "map_sum id snd
     (invoke (bias_only_variables (- 1) (- 1) (- 1) 4)
        [INPUT_TENSOR_NAME \<mapsto> [[0, 0, 0, 0, 0, 0, 0]]] (Some [0]) TRAIN
        [''learning_rate'' \<mapsto> PyFloat (1 / 2)]) = Inr ?S"
    using bias_only_train_step[where ?c1.0 = "- 1" and ?c2.0 = "- 1"
        and X = "[[0, 0, 0, 0, 0, 0, 0]]" and ls = "[0]" and lr = "1 / 2" and ?c3.0 = "- 1"
        and step = 4 and r = None]
    by (simp add: to_float_def safe_div_def)
  show ?thesis
    unfolding i g d f by simp
qed

text \<open>
  The global step is a 64-bit signed integer. At its largest value the increment wraps,
  and the counter read after the training invocation is the smallest value.
\<close>

lemma global_step_wraps:
  "sint (global_step (bias_only_variables (- 1) (- 1) 0 9223372036854775807)) =
     9223372036854775807"
  "map_sum id (\<lambda>r. sint (global_step (snd r)))
     (invoke (bias_only_variables (- 1) (- 1) 0 9223372036854775807)
        [INPUT_TENSOR_NAME \<mapsto> [[0, 0, 0, 0, 0, 0, 0]]] (Some [3]) TRAIN
        [''learning_rate'' \<mapsto> PyFloat (1 / 4)]) = Inr (- 9223372036854775808)"
proof -
  show "sint (global_step (bias_only_variables (- 1) (- 1) 0 9223372036854775807)) =
     9223372036854775807"
    by simp
  show "map_sum id (\<lambda>r. sint (global_step (snd r)))
     (invoke (bias_only_variables (- 1) (- 1) 0 9223372036854775807)
        [INPUT_TENSOR_NAME \<mapsto> [[0, 0, 0, 0, 0, 0, 0]]] (Some [3]) TRAIN
        [''learning_rate'' \<mapsto> PyFloat (1 / 4)]) = Inr (- 9223372036854775808)"
    using bias_only_train_step[where ?c1.0 = "- 1" and ?c2.0 = "- 1"
        and X = "[[0, 0, 0, 0, 0, 0, 0]]" and ls = "[3]" and lr = "1 / 4" and ?c3.0 = 0
        and step = 9223372036854775807 and r = None]
    by simp
qed

text \<open>
  Claim C7, amended. An invocation in \<open>TRAIN\<close> mode that returns has labels, as many as
  feature rows, and a Python float that is not negative as \<open>params["learning_rate"]\<close>.
  It returns a result tagged \<open>TRAIN\<close> with the mean squared error loss and the training
  operation, and leaves the variables that the operation produces. The rate \<open>\<eta>\<close> of the
  step is the stored learning rate if the state holds one and \<open>params["learning_rate"]\<close>
  otherwise, and it is the stored rate afterwards. Every entry of the three kernels and
  the three biases is the old entry minus \<open>\<eta>\<close> times the corresponding entry of the
  gradients. The global step is one more modulo \<open>2^64\<close>; read as a signed integer it is
  one more unless it was \<open>2^63 - 1\<close>. The gradients are the gradient of the loss: where
  the loss is differentiable (no pre-activation of a hidden unit is zero on the batch), its
  derivative along every direction \<open>- D\<close> is minus the inner product of the gradients
  with \<open>D\<close>. Over a run of further training invocations, whatever hyperparameters they
  are given, the stored rate stays \<open>\<eta>\<close> and the global step grows by one per
  invocation modulo \<open>2^64\<close>, so it increases as long as it stays below \<open>2^63\<close>.
  Arithmetic on weights is that of the reals.
\<close>

theorem train_step_is_gradient_descent:
  assumes "invoke vs features labels TRAIN params = Inr (spec, vs')"
  shows "\<exists>X ls lr \<eta> g.
     features INPUT_TENSOR_NAME = Some X \<and> labels = Some ls \<and> length ls = length X \<and>
     params ''learning_rate'' = Some (PyFloat lr) \<and> 0 \<le> lr \<and>
     \<eta> = (case optimizer_learning_rate vs of None \<Rightarrow> lr | Some stored \<Rightarrow> stored) \<and>
     g = compute_gradients vs X (to_float ls) \<and>
     spec_mode spec = TRAIN \<and> spec_loss spec = Some (batch_loss vs X (to_float ls)) \<and>
     spec_train_op spec = Some vs' \<and>
     (\<forall>k<length (kernel1 vs). \<forall>j<length (kernel1 vs ! k).
        kernel1 vs' ! k ! j = kernel1 vs ! k ! j - \<eta> * d_kernel1 g ! k ! j) \<and>
     (\<forall>j<length (bias1 vs). bias1 vs' ! j = bias1 vs ! j - \<eta> * d_bias1 g ! j) \<and>
     (\<forall>k<length (kernel2 vs). \<forall>j<length (kernel2 vs ! k).
        kernel2 vs' ! k ! j = kernel2 vs ! k ! j - \<eta> * d_kernel2 g ! k ! j) \<and>
     (\<forall>j<length (bias2 vs). bias2 vs' ! j = bias2 vs ! j - \<eta> * d_bias2 g ! j) \<and>
     (\<forall>k<length (kernel3 vs). \<forall>j<length (kernel3 vs ! k).
        kernel3 vs' ! k ! j = kernel3 vs ! k ! j - \<eta> * d_kernel3 g ! k ! j) \<and>
     (\<forall>j<length (bias3 vs). bias3 vs' ! j = bias3 vs ! j - \<eta> * d_bias3 g ! j) \<and>
     optimizer_learning_rate vs' = Some \<eta> \<and>
     variables_shaped (length (kernel1 vs)) vs' = variables_shaped (length (kernel1 vs)) vs \<and>
     global_step vs' = global_step vs + 1 \<and>
     (sint (global_step vs) < 2 ^ 63 - 1 \<longrightarrow>
        sint (global_step vs') = sint (global_step vs) + 1) \<and>
     (X \<noteq> [] \<and> smooth_at vs X \<longrightarrow>
        (\<forall>D. DERIV (\<lambda>t. batch_loss (apply_gradients t D vs) X (to_float ls)) 0 :>
               - dot_gradients (length (kernel1 vs)) g D)) \<and>
     (\<forall>batches params' vs''. train_run vs' batches params' = Inr vs'' \<longrightarrow>
        optimizer_learning_rate vs'' = Some \<eta> \<and>
        global_step vs'' = global_step vs + 1 + of_nat (length batches) \<and>
        (sint (global_step vs) + 1 + int (length batches) < 2 ^ 63 \<longrightarrow>
           sint (global_step vs'') = sint (global_step vs) + 1 + int (length batches) \<and>
           sint (global_step vs) < sint (global_step vs'')))"
proof -
  from invoke_TRAIN_Inr[OF assms] obtain X ls lr where h:
    "features INPUT_TENSOR_NAME = Some X" "labels = Some ls" "length ls = length X"
    "params ''learning_rate'' = Some (PyFloat lr)" "0 \<le> lr"
    "network vs X = Inr \<lparr>dtype = DT_FLOAT, elems = predict vs X\<rparr>"
    "vs' = apply_gradients (get_learning_rate vs lr) (compute_gradients vs X (to_float ls)) vs"
    "spec = \<lparr>spec_mode = TRAIN,
             spec_predictions = None,
             spec_loss = Some (mse (to_float ls) (predict vs X)),
             spec_train_op = Some vs',
             spec_eval_metric_ops = Some [''rmse'' \<mapsto> sqrt (mse (to_float ls) (predict vs X))],
             spec_export_outputs = None\<rparr>"
    by blast
  let ?g = "compute_gradients vs X (to_float ls)"
  let ?r = "case optimizer_learning_rate vs of None \<Rightarrow> lr | Some stored \<Rightarrow> stored"
  have v: "vs' = apply_gradients ?r ?g vs"
    using h(7) by (simp only: get_learning_rate_def)
  have der: "X \<noteq> [] \<and> smooth_at vs X \<longrightarrow>
        (\<forall>D. DERIV (\<lambda>t. batch_loss (apply_gradients t D vs) X (to_float ls)) 0 :>
               - dot_gradients (length (kernel1 vs)) ?g D)"
  proof (intro impI allI)
    fix D
    assume a: "X \<noteq> [] \<and> smooth_at vs X"
    then have "variables_shaped (length (kernel1 vs)) vs"
      using network_Inr_shaped[OF h(6)] by simp
    with a show "DERIV (\<lambda>t. batch_loss (apply_gradients t D vs) X (to_float ls)) 0 :>
               - dot_gradients (length (kernel1 vs)) ?g D"
      by (intro loss_directional_derivative) simp_all
  qed
  have st: "global_step vs' = global_step vs + 1"
    "variables_shaped (length (kernel1 vs)) vs' = variables_shaped (length (kernel1 vs)) vs"
    "optimizer_learning_rate vs' = Some ?r"
    unfolding v by (simp_all only: apply_gradients_sel apply_gradients_shaped)
  have sg: "sint (global_step vs) < 2 ^ 63 - 1 \<longrightarrow>
        sint (global_step vs') = sint (global_step vs) + 1"
    unfolding st(1) using sint_add_of_nat[of "global_step vs" 1] by simp
  have run: "\<forall>batches params' vs''. train_run vs' batches params' = Inr vs'' \<longrightarrow>
        optimizer_learning_rate vs'' = Some ?r \<and>
        global_step vs'' = global_step vs + 1 + of_nat (length batches) \<and>
        (sint (global_step vs) + 1 + int (length batches) < 2 ^ 63 \<longrightarrow>
           sint (global_step vs'') = sint (global_step vs) + 1 + int (length batches) \<and>
           sint (global_step vs) < sint (global_step vs''))"
  proof (intro impI allI)
    fix batches params' vs''
    assume t: "train_run vs' batches params' = Inr vs''"
    have r: "optimizer_learning_rate vs'' = Some ?r"
      by (rule train_run_keeps_rate[OF t st(3)])
    have n: "global_step vs'' = global_step vs + 1 + of_nat (length batches)"
      unfolding train_run_global_step[OF t] st(1) by (rule refl)
    have w: "global_step vs'' = global_step vs + of_nat (Suc (length batches))"
      unfolding n by simp
    have s: "sint (global_step vs) + 1 + int (length batches) < 2 ^ 63 \<longrightarrow>
           sint (global_step vs'') = sint (global_step vs) + 1 + int (length batches) \<and>
           sint (global_step vs) < sint (global_step vs'')"
      unfolding w using sint_add_of_nat[of "global_step vs" "Suc (length batches)"]
      by simp
    from r n s show "optimizer_learning_rate vs'' = Some ?r \<and>
        global_step vs'' = global_step vs + 1 + of_nat (length batches) \<and>
        (sint (global_step vs) + 1 + int (length batches) < 2 ^ 63 \<longrightarrow>
           sint (global_step vs'') = sint (global_step vs) + 1 + int (length batches) \<and>
           sint (global_step vs) < sint (global_step vs''))"
      by (intro conjI)
  qed
  have res: "spec_mode spec = TRAIN" "spec_loss spec = Some (batch_loss vs X (to_float ls))"
    "spec_train_op spec = Some vs'"
    using h(8) by (simp_all add: batch_loss_def)
  have upd:
    "\<forall>k<length (kernel1 vs). \<forall>j<length (kernel1 vs ! k).
        kernel1 vs' ! k ! j = kernel1 vs ! k ! j - ?r * d_kernel1 ?g ! k ! j"
    "\<forall>j<length (bias1 vs). bias1 vs' ! j = bias1 vs ! j - ?r * d_bias1 ?g ! j"
    "\<forall>k<length (kernel2 vs). \<forall>j<length (kernel2 vs ! k).
        kernel2 vs' ! k ! j = kernel2 vs ! k ! j - ?r * d_kernel2 ?g ! k ! j"
    "\<forall>j<length (bias2 vs). bias2 vs' ! j = bias2 vs ! j - ?r * d_bias2 ?g ! j"
    "\<forall>k<length (kernel3 vs). \<forall>j<length (kernel3 vs ! k).
        kernel3 vs' ! k ! j = kernel3 vs ! k ! j - ?r * d_kernel3 ?g ! k ! j"
    "\<forall>j<length (bias3 vs). bias3 vs' ! j = bias3 vs ! j - ?r * d_bias3 ?g ! j"
    unfolding v by (simp_all add: descend_mat_nth descend_vec_nth)
  show ?thesis
    by (intro exI[of _ X] exI[of _ ls] exI[of _ lr] exI[of _ ?r] exI[of _ ?g] conjI refl)
      (fact h(1-5) res st sg upd der run)+
qed

lemma witness_step:
  "invoke (bias_only_variables (- 1) (- 1) 0 0) [INPUT_TENSOR_NAME \<mapsto> [[0, 0, 0, 0, 0, 0, 0]]]
     (Some [3]) TRAIN [''learning_rate'' \<mapsto> PyFloat (1 / 4)] =
   Inr (\<lparr>spec_mode = TRAIN,
         spec_predictions = None,
         spec_loss = Some 9,
         spec_train_op = Some
           ((bias_only_variables (- 1) (- 1) (3 / 2) 1)\<lparr>optimizer_learning_rate := Some (1 / 4)\<rparr>),
         spec_eval_metric_ops = Some [''rmse'' \<mapsto> 3],
         spec_export_outputs = None\<rparr>,
        (bias_only_variables (- 1) (- 1) (3 / 2) 1)\<lparr>optimizer_learning_rate := Some (1 / 4)\<rparr>)"
proof -
  have l: "batch_loss (bias_only_variables (- 1) (- 1) 0 0) [[0, 0, 0, 0, 0, 0, 0]] [3] = 9"
    using one_row_loss[of "- 1" "- 1" 0 0 3] by (simp add: to_float_def)
  show ?thesis
    using bias_only_train_step[where ?c1.0 = "- 1" and ?c2.0 = "- 1"
        and X = "[[0, 0, 0, 0, 0, 0, 0]]" and ls = "[3]" and lr = "1 / 4" and ?c3.0 = 0
        and step = 0 and r = None]
    by (simp add: l sqrt_nine to_float_def safe_div_def)
qed

lemma witness_run:
  "train_run ((bias_only_variables (- 1) (- 1) (3 / 2) 1)\<lparr>optimizer_learning_rate := Some (1 / 4)\<rparr>)
     [([INPUT_TENSOR_NAME \<mapsto> [[0, 0, 0, 0, 0, 0, 0]]], Some [3])]
     [''learning_rate'' \<mapsto> PyFloat (1 / 1000)] =
   Inr ((bias_only_variables (- 1) (- 1) (9 / 4) 2)\<lparr>optimizer_learning_rate := Some (1 / 4)\<rparr>)"
  using bias_only_train_step[where ?c1.0 = "- 1" and ?c2.0 = "- 1"
      and X = "[[0, 0, 0, 0, 0, 0, 0]]" and ls = "[3]" and lr = "1 / 1000" and ?c3.0 = "3 / 2"
      and step = 1 and r = "Some (1 / 4)"]
  by (simp add: to_float_def safe_div_def)

theorem train_step_is_gradient_descent_witness:
  "invoke (bias_only_variables (- 1) (- 1) 0 0) [INPUT_TENSOR_NAME \<mapsto> [[0, 0, 0, 0, 0, 0, 0]]]
     (Some [3]) TRAIN [''learning_rate'' \<mapsto> PyFloat (1 / 4)] =
   Inr (\<lparr>spec_mode = TRAIN,
         spec_predictions = None,
         spec_loss = Some 9,
         spec_train_op = Some
           ((bias_only_variables (- 1) (- 1) (3 / 2) 1)\<lparr>optimizer_learning_rate := Some (1 / 4)\<rparr>),
         spec_eval_metric_ops = Some [''rmse'' \<mapsto> 3],
         spec_export_outputs = None\<rparr>,
        (bias_only_variables (- 1) (- 1) (3 / 2) 1)\<lparr>optimizer_learning_rate := Some (1 / 4)\<rparr>) \<and>
   [[0, 0, 0, 0, 0, 0, 0::real]] \<noteq> [] \<and>
   smooth_at (bias_only_variables (- 1) (- 1) 0 0) [[0, 0, 0, 0, 0, 0, 0]] \<and>
   sint (global_step (bias_only_variables (- 1) (- 1) 0 0)) < 2 ^ 63 - 1 \<and>
   train_run ((bias_only_variables (- 1) (- 1) (3 / 2) 1)\<lparr>optimizer_learning_rate := Some (1 / 4)\<rparr>)
     [([INPUT_TENSOR_NAME \<mapsto> [[0, 0, 0, 0, 0, 0, 0]]], Some [3])]
     [''learning_rate'' \<mapsto> PyFloat (1 / 1000)] =
     Inr ((bias_only_variables (- 1) (- 1) (9 / 4) 2)\<lparr>optimizer_learning_rate := Some (1 / 4)\<rparr>) \<and>
   sint (global_step (bias_only_variables (- 1) (- 1) 0 0)) + 1 +
     int (length [([INPUT_TENSOR_NAME \<mapsto> [[0, 0, 0, 0, 0, 0, 0::real]]], Some [3::int])]) < 2 ^ 63 \<and>
   sint (global_step (bias_only_variables (- 1) (- 1) 0 0)) <
     sint (global_step
       ((bias_only_variables (- 1) (- 1) (9 / 4) 2)\<lparr>optimizer_learning_rate := Some (1 / 4)\<rparr>)) \<and>
   (\<forall>D. DERIV (\<lambda>t. batch_loss (apply_gradients t D (bias_only_variables (- 1) (- 1) 0 0))
                    [[0, 0, 0, 0, 0, 0, 0]] (to_float [3])) 0 :>
          - dot_gradients 7
              (compute_gradients (bias_only_variables (- 1) (- 1) 0 0) [[0, 0, 0, 0, 0, 0, 0]]
                 (to_float [3])) D)"
proof -
  let ?vs = "bias_only_variables (- 1) (- 1) 0 0"
  let ?vs' = "(bias_only_variables (- 1) (- 1) (3 / 2) 1)\<lparr>optimizer_learning_rate := Some (1 / 4)\<rparr>"
  let ?vs'' = "(bias_only_variables (- 1) (- 1) (9 / 4) 2)\<lparr>optimizer_learning_rate := Some (1 / 4)\<rparr>"
  let ?X = "[[0, 0, 0, 0, 0, 0, 0::real]]"
  let ?b = "[([INPUT_TENSOR_NAME \<mapsto> ?X], Some [3::int])]"
  note h = witness_step
  note tr = witness_run
  have sm: "smooth_at ?vs ?X"
    by (rule bias_only_smooth) simp_all
  have s0: "sint (global_step ?vs) < 2 ^ 63 - 1"
    by simp
  have s1: "sint (global_step ?vs) + 1 + int (length ?b) < 2 ^ 63"
    by simp
  from train_step_is_gradient_descent[OF h] obtain X ls lr \<eta> g where t:
    "[INPUT_TENSOR_NAME \<mapsto> ?X] INPUT_TENSOR_NAME = Some X" "Some [3] = Some ls"
    "g = compute_gradients ?vs X (to_float ls)"
    "X \<noteq> [] \<and> smooth_at ?vs X \<longrightarrow>
        (\<forall>D. DERIV (\<lambda>t. batch_loss (apply_gradients t D ?vs) X (to_float ls)) 0 :>
               - dot_gradients (length (kernel1 ?vs)) g D)"
    "\<forall>batches params' vs''. train_run ?vs' batches params' = Inr vs'' \<longrightarrow>
        optimizer_learning_rate vs'' = Some \<eta> \<and>
        global_step vs'' = global_step ?vs + 1 + of_nat (length batches) \<and>
        (sint (global_step ?vs) + 1 + int (length batches) < 2 ^ 63 \<longrightarrow>
           sint (global_step vs'') = sint (global_step ?vs) + 1 + int (length batches) \<and>
           sint (global_step ?vs) < sint (global_step vs''))"
    by blast
  from t(1,2) have X: "X = ?X" and ls: "ls = [3]"
    by simp_all
  from t(4) sm have der:
    "\<forall>D. DERIV (\<lambda>t. batch_loss (apply_gradients t D ?vs) ?X (to_float [3])) 0 :>
          - dot_gradients 7 (compute_gradients ?vs ?X (to_float [3])) D"
    unfolding X ls t(3) by simp
  from t(5) tr have "sint (global_step ?vs) + 1 + int (length ?b) < 2 ^ 63 \<longrightarrow>
      sint (global_step ?vs'') = sint (global_step ?vs) + 1 + int (length ?b) \<and>
      sint (global_step ?vs) < sint (global_step ?vs'')"
    by blast
  from this s1 have "sint (global_step ?vs'') = sint (global_step ?vs) + 1 + int (length ?b) \<and>
      sint (global_step ?vs) < sint (global_step ?vs'')"
    by (rule mp)
  then have inc: "sint (global_step ?vs) < sint (global_step ?vs'')"
    by (rule conjunct2)
  show ?thesis
    by (intro conjI) (rule h sm s0 tr s1 inc der | simp)+
qed

subsection \<open>Does a training step decrease the loss?\<close>

text \<open>
  In exact arithmetic, where the loss is differentiable and the gradients are not all
  zero, the loss along the direction of steepest descent is strictly smaller for every
  small enough positive step. This is a statement about the real-valued loss function;
  the training operation rounds every product and difference to 32-bit floats, and a
  step too small for that precision changes no weight.
\<close>

lemma gradient_step_descends:
  assumes "variables_shaped d vs" "X \<noteq> []" "smooth_at vs X"
    "dot_gradients d (compute_gradients vs X ys) (compute_gradients vs X ys) \<noteq> 0"
  shows "\<exists>B>0. \<forall>lr. 0 < lr \<and> lr < B \<longrightarrow>
           batch_loss (apply_gradients lr (compute_gradients vs X ys) vs) X ys <
           batch_loss vs X ys"
proof -
  let ?g = "compute_gradients vs X ys"
  let ?f = "\<lambda>t. batch_loss (apply_gradients t ?g vs) X ys"
  have d: "DERIV ?f 0 :> - dot_gradients d ?g ?g"
    by (rule loss_directional_derivative[OF assms(1-3)])
  have neg: "- dot_gradients d ?g ?g < 0"
    using assms(4) dot_gradients_self_nonneg[of d ?g] by simp
  from DERIV_neg_dec_right[OF d neg] obtain B where
    B: "0 < B" "\<forall>h>0. h < B \<longrightarrow> ?f (0 + h) < ?f 0"
    by blast
  have "?f 0 = batch_loss vs X ys"
    by (simp add: batch_loss_def)
  with B show ?thesis
    by (intro exI[of _ B]) simp
qed






lemma stationary_features [simp]:
  "features_shaped 7 [[0, 0, 0, 0, 0, 0, 0], [1, 2, 3, 4, 5, 6, 7]]"
  by (simp add: features_shaped_def)









text \<open>
  Where the gradients are not zero the loss need not decrease either. At
  \<open>kink_variables\<close> the gradients that the framework computes are not zero and the loss
  is \<open>1\<close>, but the step with the script's learning rate switches on the hidden unit that
  sat at its kink, and the loss recomputed on the batch is larger than before.
\<close>

lemma kink_step_increases_loss:
  "variables_shaped 7 kink_variables"
  "features_shaped 7 [[1, 0, 0, 0, 0, 0, 0]]"
  "\<not> smooth_at kink_variables [[1, 0, 0, 0, 0, 0, 0]]"
  "z2 kink_variables [[1, 0, 0, 0, 0, 0, 0]] ! 0 ! 1 = 0"
  "dot_gradients 7 (compute_gradients kink_variables [[1, 0, 0, 0, 0, 0, 0]] (to_float [2]))
     (compute_gradients kink_variables [[1, 0, 0, 0, 0, 0, 0]] (to_float [2])) = 24"
  "batch_loss kink_variables [[1, 0, 0, 0, 0, 0, 0]] (to_float [2]) = 1"
  "batch_loss kink_variables [[1, 0, 0, 0, 0, 0, 0]] (to_float [2]) <
   batch_loss
     (apply_gradients LEARNING_RATE
        (compute_gradients kink_variables [[1, 0, 0, 0, 0, 0, 0]] (to_float [2])) kink_variables)
     [[1, 0, 0, 0, 0, 0, 0]] (to_float [2])"
  by code_simp+

end
